theory Spec2Isabelle
  imports Complex_Main
begin

section \<open>Python strings\<close>

text \<open>
  A Python \<open>str\<close> is a sequence of Unicode code points; \<open>len\<close> counts code points and a
  slice \<open>text[i:i+n]\<close> cuts between code points. A string is therefore a list of code
  points, each a natural number. ASCII literals of the source are written \<open>ustr ''...''\<close>.
\<close>

type_synonym pystr = "nat list"

definition ustr :: "string \<Rightarrow> pystr" where
  "ustr s = map of_char s"

text \<open>
  \<open>str.strip()\<close>, \<open>str.split()\<close> and the class \<open>\s\<close> of \<open>re\<close> (on \<open>str\<close> patterns) all use
  the same set of white-space code points.
\<close>

definition isspace :: "nat \<Rightarrow> bool" where
  "isspace c =
     ((0x09 \<le> c \<and> c \<le> 0x0D) \<or> (0x1C \<le> c \<and> c \<le> 0x20) \<or> c = 0x85 \<or> c = 0xA0
      \<or> c = 0x1680 \<or> (0x2000 \<le> c \<and> c \<le> 0x200A) \<or> c = 0x2028 \<or> c = 0x2029
      \<or> c = 0x202F \<or> c = 0x205F \<or> c = 0x3000)"

definition lstrip :: "pystr \<Rightarrow> pystr" where
  "lstrip s = dropWhile isspace s"

definition rstrip :: "pystr \<Rightarrow> pystr" where
  "rstrip s = rev (dropWhile isspace (rev s))"

definition strip :: "pystr \<Rightarrow> pystr" where
  "strip s = rstrip (lstrip s)"

text \<open>\<open>sep.join(xs)\<close>\<close>

fun py_join :: "pystr \<Rightarrow> pystr list \<Rightarrow> pystr" where
  "py_join sep [] = []"
| "py_join sep [x] = x"
| "py_join sep (x # y # ys) = x @ sep @ py_join sep (y # ys)"

text \<open>\<open>s.split()\<close> with no argument: the maximal runs of non-white-space code points.\<close>

fun split_from :: "pystr \<Rightarrow> pystr \<Rightarrow> pystr list" where
  "split_from cur [] = (if cur = [] then [] else [cur])"
| "split_from cur (c # cs) =
     (if isspace c then (if cur = [] then split_from [] cs else cur # split_from [] cs)
      else split_from (cur @ [c]) cs)"

definition py_split :: "pystr \<Rightarrow> pystr list" where
  "py_split s = split_from [] s"

text \<open>\<open>range(start, stop, step)\<close> for a positive step, and the slices cut along it.\<close>

definition py_range :: "nat \<Rightarrow> nat \<Rightarrow> nat \<Rightarrow> nat list" where
  "py_range start stop step =
     map (\<lambda>k. start + k * step) [0 ..< (stop - start + step - 1) div step]"

text \<open>\<open>[text[i:i+n] for i in range(0, len(text), n)]\<close>\<close>

definition chunks :: "nat \<Rightarrow> pystr \<Rightarrow> pystr list" where
  "chunks n text = map (\<lambda>i. take n (drop i text)) (py_range 0 (length text) n)"

text \<open>\<open>str(i)\<close> for an integer: its decimal digits, with a minus sign when negative.\<close>

function digits :: "nat \<Rightarrow> pystr" where
  "digits n = (if n < 10 then [48 + n] else digits (n div 10) @ [48 + n mod 10])"
  by pat_completeness auto
termination
  by (relation "measure id") auto

definition str_int :: "int \<Rightarrow> pystr" where
  "str_int i = (if i < 0 then 45 # digits (nat (- i)) else digits (nat i))"

text \<open>
  \<open>s.encode()\<close> (UTF-8) raises \<open>UnicodeEncodeError\<close> exactly on a string that holds a
  surrogate code point.
\<close>

definition encodable :: "pystr \<Rightarrow> bool" where
  "encodable s = (\<not> list_ex (\<lambda>c. 0xD800 \<le> c \<and> c \<le> 0xDFFF) s)"

datatype py_error = TypeError | UnicodeEncodeError

section \<open>Input validation\<close>

text \<open>
  \<open>AITranslator.validate_input\<close>. The text is \<open>None\<close> or a string. The emptiness test
  \<open>not text or not text.strip()\<close> short-circuits on \<open>None\<close>; the next statement takes
  \<open>len(text)\<close>, which raises \<open>TypeError\<close> on \<open>None\<close>.
\<close>

definition err_empty :: pystr where
  "err_empty = ustr ''Please enter some text to translate''"

definition err_too_long :: pystr where
  "err_too_long = ustr ''Text is too long (maximum 10,000 characters)''"

definition err_same_language :: pystr where
  "err_same_language = ustr ''Source and target languages cannot be the same''"

definition validate_input :: "pystr option \<Rightarrow> pystr \<Rightarrow> pystr \<Rightarrow> py_error + pystr list" where
  "validate_input text src tgt =
     (let errors = [];
          errors = (if (case text of None \<Rightarrow> True | Some t \<Rightarrow> t = [] \<or> strip t = [])
                    then errors @ [err_empty] else errors)
      in case text of
           None \<Rightarrow> Inl TypeError
         | Some t \<Rightarrow>
             (let errors = (if length t > 10000 then errors @ [err_too_long] else errors);
                  errors = (if src = tgt \<and> src \<noteq> ustr ''auto''
                            then errors @ [err_same_language] else errors)
              in Inr errors))"

section \<open>Results, the outside world and the caches\<close>

text \<open>
  The result dictionary built by the dispatchers (the key \<open>method\<close> is the field
  \<open>method_name\<close>). The keys \<open>offline\<close>, \<open>pivot\<close> and \<open>error\<close> are present only on some
  paths; an absent key is \<open>None\<close>.
\<close>

record result =
  translation :: pystr
  source_lang :: pystr
  method_name :: pystr
  time :: real
  confidence :: real
  cached :: bool
  offline :: "bool option"
  pivot :: "bool option"
  error :: "pystr option"

text \<open>A loaded model: the pair \<open>(tokenizer, model)\<close> kept in the in-process model cache.\<close>

datatype handle = Handle nat nat

text \<open>
  Every interaction with something outside the translator (the clock, the language
  detector, the model library, the two web services, Redis, the disk cache) is recorded in
  a trace, in order. The number of interactions so far indexes the answers of the outside
  world, so that the same request may be answered differently at different moments (a
  retry may succeed, a cache tier may go down).
\<close>

datatype call =
    Time_time
  | Detect pystr
  | Tokenizer_from_pretrained pystr
  | Model_from_pretrained pystr
  | Model_generate handle pystr
  | Google_translate pystr pystr pystr
  | MyMemory_translate pystr pystr pystr
  | Redis_get pystr
  | Redis_setex pystr nat result
  | Disk_get pystr
  | Disk_set pystr result nat

text \<open>
  The outside world, as seen by one process. An answer \<open>None\<close> of a collaborator means
  that the call raised an exception.
  \<^item> \<open>py_hash\<close>: the built-in \<open>hash\<close> on strings of this process;
  \<^item> \<open>md5_hexdigest\<close>: \<open>hashlib.md5(s.encode()).hexdigest()\<close> on an encodable string;
  \<^item> \<open>is_word\<close>: the class \<open>\w\<close> of \<open>re\<close>;
  \<^item> \<open>clock\<close>: the value of \<open>time.time()\<close>;
  \<^item> \<open>detect\<close>: \<open>langdetect.detect\<close>, \<open>None\<close> for \<open>LangDetectException\<close>;
  \<^item> \<open>tokenizer_from_pretrained\<close>, \<open>model_from_pretrained\<close>: loading by model name;
  \<^item> \<open>model_generate\<close>: tokenizing one piece of text, generating and decoding;
  \<^item> \<open>google\<close>, \<open>mymemory\<close>: one request to the web service, by source, target and text;
  \<^item> \<open>redis_client\<close>: whether the cache holds a Redis client; \<open>redis_ok\<close>, \<open>disk_ok\<close>:
    whether an operation on that tier goes through at that moment (it raises otherwise).
\<close>

record env =
  py_hash :: "pystr \<Rightarrow> int"
  md5_hexdigest :: "pystr \<Rightarrow> pystr"
  is_word :: "nat \<Rightarrow> bool"
  clock :: "nat \<Rightarrow> real"
  detect :: "nat \<Rightarrow> pystr \<Rightarrow> pystr option"
  tokenizer_from_pretrained :: "nat \<Rightarrow> pystr \<Rightarrow> nat option"
  model_from_pretrained :: "nat \<Rightarrow> pystr \<Rightarrow> nat option"
  model_generate :: "nat \<Rightarrow> handle \<Rightarrow> pystr \<Rightarrow> pystr option"
  google :: "nat \<Rightarrow> pystr \<Rightarrow> pystr \<Rightarrow> pystr \<Rightarrow> pystr option"
  mymemory :: "nat \<Rightarrow> pystr \<Rightarrow> pystr \<Rightarrow> pystr \<Rightarrow> pystr option"
  redis_client :: bool
  redis_ok :: "nat \<Rightarrow> bool"
  disk_ok :: "nat \<Rightarrow> bool"

text \<open>
  The mutable state: the trace, the in-process model cache of \<open>ModelCache\<close>, and the
  contents of the two translation-cache tiers. Redis holds the JSON text of a result and
  the disk cache a pickled copy; both give back a dictionary equal to the one stored, so
  both are maps from keys to results. Entries are taken not to expire between the calls
  considered (the time-to-live is recorded in the trace only).
\<close>

record world =
  trace :: "call list"
  model_cache :: "pystr \<rightharpoonup> handle"
  redis_store :: "pystr \<rightharpoonup> result"
  disk_store :: "pystr \<rightharpoonup> result"

definition tick :: "world \<Rightarrow> nat" where
  "tick w = length (trace w)"

definition log_call :: "call \<Rightarrow> world \<Rightarrow> world" where
  "log_call c w = w\<lparr>trace := trace w @ [c]\<rparr>"

text \<open>\<open>time.time()\<close>\<close>

definition time_time :: "env \<Rightarrow> world \<Rightarrow> real \<times> world" where
  "time_time e w = (clock e (tick w), log_call Time_time w)"

section \<open>Language detection\<close>

definition supported_languages :: "pystr list" where
  "supported_languages = map ustr
     [''en'', ''es'', ''fr'', ''de'', ''it'', ''pt'', ''ru'', ''ja'', ''ko'', ''zh'',
      ''ar'', ''hi'', ''nl'', ''sv'', ''da'', ''no'', ''fi'', ''pl'', ''tr'', ''th'']"

text \<open>\<open>re.sub(r'[^\w\s]', ' ', text)\<close> followed by \<open>' '.join(clean_text.split())\<close>\<close>

definition clean :: "env \<Rightarrow> pystr \<Rightarrow> pystr" where
  "clean e text =
     py_join [0x20] (py_split (map (\<lambda>c. if is_word e c \<or> isspace c then c else 0x20) text))"

text \<open>The handler of \<open>LangDetectException\<close>: code-point ranges, in the order of the source.\<close>

definition detect_fallback :: "pystr \<Rightarrow> pystr \<times> real" where
  "detect_fallback text =
     (if list_ex (\<lambda>c. 0x4E00 \<le> c \<and> c \<le> 0x9FFF) text then (ustr ''zh'', 0.8)
      else if list_ex (\<lambda>c. (0x3040 \<le> c \<and> c \<le> 0x309F) \<or> (0x30A0 \<le> c \<and> c \<le> 0x30FF)) text
        then (ustr ''ja'', 0.8)
      else if list_ex (\<lambda>c. 0xAC00 \<le> c \<and> c \<le> 0xD7AF) text then (ustr ''ko'', 0.8)
      else if list_ex (\<lambda>c. 0x0600 \<le> c \<and> c \<le> 0x06FF) text then (ustr ''ar'', 0.8)
      else if list_ex (\<lambda>c. 0x0900 \<le> c \<and> c \<le> 0x097F) text then (ustr ''hi'', 0.8)
      else (ustr ''en'', 0.5))"

text \<open>\<open>AITranslator.detect_language\<close>\<close>

definition detect_language :: "env \<Rightarrow> world \<Rightarrow> pystr \<Rightarrow> (pystr \<times> real) \<times> world" where
  "detect_language e w text =
     (if text = [] \<or> length (strip text) < 3 then ((ustr ''en'', 0.3), w)
      else
        (let clean_text = clean e text;
             arg = (if length clean_text > 10 then clean_text else text);
             answer = detect e (tick w) arg;
             w = log_call (Detect arg) w
         in case answer of
              None \<Rightarrow> (detect_fallback text, w)
            | Some detected \<Rightarrow>
                (let confidence = (if length clean_text > 10 then 0.95 else 0.7)
                 in if \<not> List.member supported_languages detected then ((ustr ''en'', 0.5), w)
                    else ((detected, confidence), w))))"

section \<open>The translation cache\<close>

text \<open>
  \<open>ModelCache._make_key(prefix, *args)\<close>. The arguments are strings or integers and are
  converted by \<open>str\<close>. The length test is on the joined arguments, without the prefix; a
  long key is replaced by its MD5 digest, for which the string is encoded first.
\<close>

datatype pyval = PyStr pystr | PyInt int

fun py_str :: "pyval \<Rightarrow> pystr" where
  "py_str (PyStr s) = s"
| "py_str (PyInt i) = str_int i"

definition make_key :: "env \<Rightarrow> pystr \<Rightarrow> pyval list \<Rightarrow> py_error + pystr" where
  "make_key e prefix args =
     (let key_parts = map py_str args;
          key_str = py_join (ustr '':'') key_parts
      in if length key_str > 200 then
           (if encodable key_str then Inr (prefix @ ustr '':'' @ md5_hexdigest e key_str)
            else Inl UnicodeEncodeError)
         else Inr (prefix @ ustr '':'' @ key_str))"

text \<open>
  The key of both \<open>cache_translation\<close> and \<open>get_cached_translation\<close>:
  \<open>self._make_key("trans", source_lang, target_lang, hash(text))\<close>.
\<close>

definition translation_key :: "env \<Rightarrow> pystr \<Rightarrow> pystr \<Rightarrow> pystr \<Rightarrow> py_error + pystr" where
  "translation_key e text src tgt =
     make_key e (ustr ''trans'') [PyStr src, PyStr tgt, PyInt (py_hash e text)]"

text \<open>
  The operations on the two tiers. Each is logged; when the tier is down at that moment the
  operation raises, which is the answer \<open>False\<close> of a write and \<open>None\<close> of a read.
\<close>

definition redis_setex :: "env \<Rightarrow> world \<Rightarrow> pystr \<Rightarrow> nat \<Rightarrow> result \<Rightarrow> bool \<times> world" where
  "redis_setex e w k ttl v =
     (if redis_ok e (tick w)
      then (True, (log_call (Redis_setex k ttl v) w)\<lparr>redis_store := (redis_store w)(k \<mapsto> v)\<rparr>)
      else (False, log_call (Redis_setex k ttl v) w))"

definition redis_get :: "env \<Rightarrow> world \<Rightarrow> pystr \<Rightarrow> result option option \<times> world" where
  "redis_get e w k =
     (if redis_ok e (tick w) then (Some (redis_store w k), log_call (Redis_get k) w)
      else (None, log_call (Redis_get k) w))"

definition disk_set :: "env \<Rightarrow> world \<Rightarrow> pystr \<Rightarrow> result \<Rightarrow> nat \<Rightarrow> bool \<times> world" where
  "disk_set e w k v ttl =
     (if disk_ok e (tick w)
      then (True, (log_call (Disk_set k v ttl) w)\<lparr>disk_store := (disk_store w)(k \<mapsto> v)\<rparr>)
      else (False, log_call (Disk_set k v ttl) w))"

definition disk_get :: "env \<Rightarrow> world \<Rightarrow> pystr \<Rightarrow> result option option \<times> world" where
  "disk_get e w k =
     (if disk_ok e (tick w) then (Some (disk_store w k), log_call (Disk_get k) w)
      else (None, log_call (Disk_get k) w))"

text \<open>
  \<open>ModelCache.cache_translation\<close>: Redis first, and the disk cache when there is no Redis
  client or the Redis write raised. A failed disk write is only printed.
\<close>

definition cache_translation ::
  "env \<Rightarrow> world \<Rightarrow> pystr \<Rightarrow> pystr \<Rightarrow> pystr \<Rightarrow> result \<Rightarrow> nat \<Rightarrow> py_error + world" where
  "cache_translation e w text src tgt res ttl =
     (case translation_key e text src tgt of
        Inl err \<Rightarrow> Inl err
      | Inr cache_key \<Rightarrow>
          (let (written, w) = (if redis_client e then redis_setex e w cache_key ttl res
                               else (False, w))
           in if written then Inr w
              else Inr (snd (disk_set e w cache_key res ttl))))"

text \<open>
  \<open>ModelCache.get_cached_translation\<close>: Redis first; on a miss or a failure there, the disk
  cache, whose hit is promoted to Redis (a failure of the promotion is ignored).
\<close>

definition get_cached_translation ::
  "env \<Rightarrow> world \<Rightarrow> pystr \<Rightarrow> pystr \<Rightarrow> pystr \<Rightarrow> py_error + (result option \<times> world)" where
  "get_cached_translation e w text src tgt =
     (case translation_key e text src tgt of
        Inl err \<Rightarrow> Inl err
      | Inr cache_key \<Rightarrow>
          (let (cached, w) =
                 (if redis_client e
                  then (case redis_get e w cache_key of
                          (Some (Some c), w') \<Rightarrow> (Some c, w')
                        | (_, w') \<Rightarrow> (None, w'))
                  else (None, w))
           in case cached of
                Some c \<Rightarrow> Inr (Some c, w)
              | None \<Rightarrow>
                  (case disk_get e w cache_key of
                     (Some (Some c), w) \<Rightarrow>
                       (let w = (if redis_client e then snd (redis_setex e w cache_key 3600 c)
                                 else w)
                        in Inr (Some c, w))
                   | (_, w) \<Rightarrow> Inr (None, w))))"

section \<open>The three backends\<close>

text \<open>
  The pauses between chunks and between attempts (\<open>time.sleep\<close>) and the messages
  printed when a cache tier fails change no value and are left out.
\<close>

text \<open>
  \<open>AITranslator.load_ai_model\<close>: the in-process model cache first, then the library; a
  failure to load gives \<open>(None, None)\<close>, here \<open>None\<close>.
\<close>

definition load_ai_model :: "env \<Rightarrow> world \<Rightarrow> pystr \<Rightarrow> handle option \<times> world" where
  "load_ai_model e w model_name =
     (case model_cache w model_name of
        Some cached_model \<Rightarrow> (Some cached_model, w)
      | None \<Rightarrow>
          (let tok = tokenizer_from_pretrained e (tick w) model_name;
               w = log_call (Tokenizer_from_pretrained model_name) w
           in case tok of
                None \<Rightarrow> (None, w)
              | Some tokenizer \<Rightarrow>
                  (let mdl = model_from_pretrained e (tick w) model_name;
                       w = log_call (Model_from_pretrained model_name) w
                   in case mdl of
                        None \<Rightarrow> (None, w)
                      | Some model \<Rightarrow>
                          (Some (Handle tokenizer model),
                           w\<lparr>model_cache := (model_cache w)(model_name \<mapsto> Handle tokenizer model)\<rparr>))))"

text \<open>One run of the model on one piece of text: tokenize, generate, decode.\<close>

definition run_model :: "env \<Rightarrow> world \<Rightarrow> handle \<Rightarrow> pystr \<Rightarrow> pystr option \<times> world" where
  "run_model e w h piece = (model_generate e (tick w) h piece, log_call (Model_generate h piece) w)"

text \<open>The loop over the chunks; an exception in one chunk abandons the whole attempt.\<close>

fun translate_chunks ::
  "env \<Rightarrow> world \<Rightarrow> handle \<Rightarrow> pystr list \<Rightarrow> pystr list option \<times> world" where
  "translate_chunks e w h [] = (Some [], w)"
| "translate_chunks e w h (chunk # rest) =
     (case run_model e w h chunk of
        (None, w) \<Rightarrow> (None, w)
      | (Some chunk_result, w) \<Rightarrow>
          (case translate_chunks e w h rest of
             (None, w) \<Rightarrow> (None, w)
           | (Some translated_chunks, w) \<Rightarrow> (Some (chunk_result # translated_chunks), w)))"

definition ai_method_name :: pystr where
  "ai_method_name = ustr ''AI Model (Marian)''"

text \<open>
  \<open>AITranslator.translate_with_ai\<close>. The answer \<open>(None, None)\<close> is \<open>None\<close>, the answer
  \<open>(result, method)\<close> is \<open>Some (result, method)\<close>.
\<close>

definition translate_with_ai ::
  "env \<Rightarrow> world \<Rightarrow> pystr \<Rightarrow> pystr \<Rightarrow> pystr \<Rightarrow> (pystr \<times> pystr) option \<times> world" where
  "translate_with_ai e w text src tgt =
     (if strip text = [] then (None, w)
      else
        (let model_name = ustr ''Helsinki-NLP/opus-mt-'' @ src @ ustr ''-'' @ tgt
         in case load_ai_model e w model_name of
              (None, w) \<Rightarrow> (None, w)
            | (Some h, w) \<Rightarrow>
                (let max_length = 400
                 in if length text > max_length then
                      (case translate_chunks e w h (chunks max_length text) of
                         (None, w) \<Rightarrow> (None, w)
                       | (Some translated_chunks, w) \<Rightarrow>
                           (Some (py_join (ustr '' '') translated_chunks, ai_method_name), w))
                    else
                      (case run_model e w h text of
                         (None, w) \<Rightarrow> (None, w)
                       | (Some res, w) \<Rightarrow> (Some (res, ai_method_name), w)))))"

text \<open>One request to a web service, on one piece of text.\<close>

definition google_call ::
  "env \<Rightarrow> world \<Rightarrow> pystr \<Rightarrow> pystr \<Rightarrow> pystr \<Rightarrow> pystr option \<times> world" where
  "google_call e w src tgt piece =
     (google e (tick w) src tgt piece, log_call (Google_translate src tgt piece) w)"

definition mymemory_call ::
  "env \<Rightarrow> world \<Rightarrow> pystr \<Rightarrow> pystr \<Rightarrow> pystr \<Rightarrow> pystr option \<times> world" where
  "mymemory_call e w src tgt piece =
     (mymemory e (tick w) src tgt piece, log_call (MyMemory_translate src tgt piece) w)"

fun google_chunks ::
  "env \<Rightarrow> world \<Rightarrow> pystr \<Rightarrow> pystr \<Rightarrow> pystr list \<Rightarrow> pystr list option \<times> world" where
  "google_chunks e w src tgt [] = (Some [], w)"
| "google_chunks e w src tgt (chunk # rest) =
     (case google_call e w src tgt chunk of
        (None, w) \<Rightarrow> (None, w)
      | (Some chunk_result, w) \<Rightarrow>
          (case google_chunks e w src tgt rest of
             (None, w) \<Rightarrow> (None, w)
           | (Some translated_chunks, w) \<Rightarrow> (Some (chunk_result # translated_chunks), w)))"

fun mymemory_chunks ::
  "env \<Rightarrow> world \<Rightarrow> pystr \<Rightarrow> pystr \<Rightarrow> pystr list \<Rightarrow> pystr list option \<times> world" where
  "mymemory_chunks e w src tgt [] = (Some [], w)"
| "mymemory_chunks e w src tgt (chunk # rest) =
     (case mymemory_call e w src tgt chunk of
        (None, w) \<Rightarrow> (None, w)
      | (Some chunk_result, w) \<Rightarrow>
          (case mymemory_chunks e w src tgt rest of
             (None, w) \<Rightarrow> (None, w)
           | (Some translated_chunks, w) \<Rightarrow> (Some (chunk_result # translated_chunks), w)))"

text \<open>
  \<open>AITranslator.translate_with_google\<close>: the loop \<open>for attempt in range(max_retries)\<close>,
  by the number of attempts left. An attempt that raises is followed by the next one; the
  source language resolved in one attempt is kept for the next. The answer is
  \<open>(result, source_lang, method)\<close> or \<open>(None, None, None)\<close>, here \<open>None\<close>.
\<close>

fun google_attempts ::
  "env \<Rightarrow> nat \<Rightarrow> world \<Rightarrow> pystr \<Rightarrow> pystr \<Rightarrow> pystr
     \<Rightarrow> (pystr \<times> pystr \<times> pystr) option \<times> world" where
  "google_attempts e 0 w text src tgt = (None, w)"
| "google_attempts e (Suc left) w text src tgt =
     (let (src, w) = (if src = ustr ''auto''
                      then (case detect_language e w text of
                              ((detected_lang, conf), w) \<Rightarrow> (detected_lang, w))
                      else (src, w));
          max_chunk_size = 4500;
          (res, w) = (if length text > max_chunk_size
                      then (case google_chunks e w src tgt (chunks max_chunk_size text) of
                              (None, w) \<Rightarrow> (None, w)
                            | (Some translated_chunks, w) \<Rightarrow>
                                (Some (py_join (ustr '' '') translated_chunks), w))
                      else google_call e w src tgt text)
      in case res of
           Some r \<Rightarrow> (Some (r, src, ustr ''Google Translate''), w)
         | None \<Rightarrow> google_attempts e left w text src tgt)"

definition translate_with_google ::
  "env \<Rightarrow> world \<Rightarrow> pystr \<Rightarrow> pystr \<Rightarrow> pystr \<Rightarrow> (pystr \<times> pystr \<times> pystr) option \<times> world" where
  "translate_with_google e w text src tgt =
     (let max_retries = 3 in google_attempts e max_retries w text src tgt)"

text \<open>\<open>AITranslator.translate_with_mymemory\<close>: one attempt.\<close>

definition translate_with_mymemory ::
  "env \<Rightarrow> world \<Rightarrow> pystr \<Rightarrow> pystr \<Rightarrow> pystr \<Rightarrow> (pystr \<times> pystr) option \<times> world" where
  "translate_with_mymemory e w text src tgt =
     (let max_chunk_size = 450;
          (res, w) = (if length text > max_chunk_size
                      then (case mymemory_chunks e w src tgt (chunks max_chunk_size text) of
                              (None, w) \<Rightarrow> (None, w)
                            | (Some translated_chunks, w) \<Rightarrow>
                                (Some (py_join (ustr '' '') translated_chunks), w))
                      else mymemory_call e w src tgt text)
      in case res of
           Some r \<Rightarrow> (Some (r, ustr ''MyMemory''), w)
         | None \<Rightarrow> (None, w))"

section \<open>The dispatcher\<close>

text \<open>
  The test \<open>if ai_result:\<close> on the first component of a backend's answer: \<open>None\<close> and the
  empty string are both false.
\<close>

definition truthy :: "(pystr \<times> 'a) option \<Rightarrow> (pystr \<times> 'a) option" where
  "truthy r = (case r of None \<Rightarrow> None | Some (s, x) \<Rightarrow> if s = [] then None else Some (s, x))"

text \<open>
  \<open>AITranslator.smart_translate\<close>. It returns a result, or \<open>None\<close>, with the new state; or
  it raises, when the cache key cannot be built.
\<close>

definition smart_translate ::
  "env \<Rightarrow> world \<Rightarrow> pystr \<Rightarrow> pystr \<Rightarrow> pystr \<Rightarrow> py_error + (result option \<times> world)" where
  "smart_translate e w text src tgt =
     (let (start_time, w) = time_time e w;
          (src, w) = (if src = ustr ''auto''
                      then (case detect_language e w text of
                              ((detected_lang, conf), w) \<Rightarrow> (detected_lang, w))
                      else (src, w))
      in case get_cached_translation e w text src tgt of
           Inl err \<Rightarrow> Inl err
         | Inr (Some cached_result, w) \<Rightarrow>
             (let (now, w) = time_time e w
              in Inr (Some (cached_result\<lparr>time := now - start_time, cached := True\<rparr>), w))
         | Inr (None, w) \<Rightarrow>
             (let (ai, w) = translate_with_ai e w text src tgt
              in case truthy ai of
                   Some (ai_result, ai_method) \<Rightarrow>
                     (let (now, w) = time_time e w;
                          res = \<lparr> translation = ai_result, source_lang = src,
                                  method_name = ai_method, time = now - start_time,
                                  confidence = 0.95, cached = False,
                                  offline = None, pivot = None, error = None \<rparr>
                      in case cache_translation e w text src tgt res 3600 of
                           Inl err \<Rightarrow> Inl err
                         | Inr w \<Rightarrow> Inr (Some res, w))
                 | None \<Rightarrow>
                     (let (gg, w) = translate_with_google e w text src tgt
                      in case truthy gg of
                           Some (google_result, detected_lang, google_method) \<Rightarrow>
                             (let (now, w) = time_time e w;
                                  res = \<lparr> translation = google_result, source_lang = detected_lang,
                                          method_name = google_method, time = now - start_time,
                                          confidence = 0.90, cached = False,
                                          offline = None, pivot = None, error = None \<rparr>
                              in case cache_translation e w text src tgt res 3600 of
                                   Inl err \<Rightarrow> Inl err
                                 | Inr w \<Rightarrow> Inr (Some res, w))
                         | None \<Rightarrow>
                             (let (mm, w) = translate_with_mymemory e w text src tgt
                              in case truthy mm of
                                   Some (mymemory_result, mymemory_method) \<Rightarrow>
                                     (let (now, w) = time_time e w;
                                          res = \<lparr> translation = mymemory_result, source_lang = src,
                                                  method_name = mymemory_method,
                                                  time = now - start_time,
                                                  confidence = 0.80, cached = False,
                                                  offline = None, pivot = None, error = None \<rparr>
                                      in case cache_translation e w text src tgt res 3600 of
                                           Inl err \<Rightarrow> Inl err
                                         | Inr w \<Rightarrow> Inr (Some res, w))
                                 | None \<Rightarrow> Inr (None, w)))))"

section \<open>The offline dispatcher\<close>

text \<open>The settings of an \<open>OfflineTranslator\<close>, fixed when it is built.\<close>

record config =
  offline_mode :: bool
  use_ai_models :: bool
  use_google_translate :: bool
  use_mymemory :: bool

text \<open>The table \<open>offline_pairs\<close>: language pair and model name, in the order of the source.\<close>

definition offline_pairs :: "((pystr \<times> pystr) \<times> pystr) list" where
  "offline_pairs = map (\<lambda>(s, t, m). ((ustr s, ustr t), ustr m))
     [(''en'', ''es'', ''Helsinki-NLP/opus-mt-en-es''),
      (''en'', ''fr'', ''Helsinki-NLP/opus-mt-en-fr''),
      (''en'', ''de'', ''Helsinki-NLP/opus-mt-en-de''),
      (''en'', ''it'', ''Helsinki-NLP/opus-mt-en-it''),
      (''en'', ''pt'', ''Helsinki-NLP/opus-mt-en-pt''),
      (''en'', ''ru'', ''Helsinki-NLP/opus-mt-en-ru''),
      (''en'', ''zh'', ''Helsinki-NLP/opus-mt-en-zh''),
      (''en'', ''ja'', ''Helsinki-NLP/opus-mt-en-jap''),
      (''en'', ''ko'', ''Helsinki-NLP/opus-mt-en-ko''),
      (''en'', ''ar'', ''Helsinki-NLP/opus-mt-en-ar''),
      (''en'', ''hi'', ''Helsinki-NLP/opus-mt-en-hi''),
      (''en'', ''nl'', ''Helsinki-NLP/opus-mt-en-nl''),
      (''en'', ''sv'', ''Helsinki-NLP/opus-mt-en-sv''),
      (''en'', ''da'', ''Helsinki-NLP/opus-mt-en-da''),
      (''en'', ''no'', ''Helsinki-NLP/opus-mt-en-no''),
      (''en'', ''fi'', ''Helsinki-NLP/opus-mt-en-fi''),
      (''en'', ''pl'', ''Helsinki-NLP/opus-mt-en-pl''),
      (''en'', ''tr'', ''Helsinki-NLP/opus-mt-en-tr''),
      (''es'', ''en'', ''Helsinki-NLP/opus-mt-es-en''),
      (''fr'', ''en'', ''Helsinki-NLP/opus-mt-fr-en''),
      (''de'', ''en'', ''Helsinki-NLP/opus-mt-de-en''),
      (''it'', ''en'', ''Helsinki-NLP/opus-mt-it-en''),
      (''pt'', ''en'', ''Helsinki-NLP/opus-mt-pt-en''),
      (''ru'', ''en'', ''Helsinki-NLP/opus-mt-ru-en''),
      (''zh'', ''en'', ''Helsinki-NLP/opus-mt-zh-en''),
      (''ja'', ''en'', ''Helsinki-NLP/opus-mt-jap-en''),
      (''ko'', ''en'', ''Helsinki-NLP/opus-mt-ko-en''),
      (''ar'', ''en'', ''Helsinki-NLP/opus-mt-ar-en''),
      (''hi'', ''en'', ''Helsinki-NLP/opus-mt-hi-en''),
      (''nl'', ''en'', ''Helsinki-NLP/opus-mt-nl-en''),
      (''sv'', ''en'', ''Helsinki-NLP/opus-mt-sv-en''),
      (''da'', ''en'', ''Helsinki-NLP/opus-mt-da-en''),
      (''no'', ''en'', ''Helsinki-NLP/opus-mt-no-en''),
      (''fi'', ''en'', ''Helsinki-NLP/opus-mt-fi-en''),
      (''pl'', ''en'', ''Helsinki-NLP/opus-mt-pl-en''),
      (''tr'', ''en'', ''Helsinki-NLP/opus-mt-tr-en''),
      (''es'', ''fr'', ''Helsinki-NLP/opus-mt-es-fr''),
      (''fr'', ''es'', ''Helsinki-NLP/opus-mt-fr-es''),
      (''es'', ''it'', ''Helsinki-NLP/opus-mt-es-it''),
      (''it'', ''es'', ''Helsinki-NLP/opus-mt-it-es''),
      (''fr'', ''de'', ''Helsinki-NLP/opus-mt-fr-de''),
      (''de'', ''fr'', ''Helsinki-NLP/opus-mt-de-fr'')]"

text \<open>\<open>OfflineTranslator.is_offline_available\<close>\<close>

definition is_offline_available :: "pystr \<Rightarrow> pystr \<Rightarrow> bool" where
  "is_offline_available src tgt = List.member (map fst offline_pairs) (src, tgt)"

text \<open>
  \<open>OfflineTranslator._translate_via_english_pivot\<close>: the source language into English and
  English into the target language, each by the local model.
\<close>

definition translate_via_english_pivot ::
  "env \<Rightarrow> world \<Rightarrow> pystr \<Rightarrow> pystr \<Rightarrow> pystr \<Rightarrow> py_error + (result option \<times> world)" where
  "translate_via_english_pivot e w text src tgt =
     (let (start_time, w) = time_time e w
      in if is_offline_available src (ustr ''en'') then
           (let (first, w) = translate_with_ai e w text src (ustr ''en'')
            in case truthy first of
                 None \<Rightarrow> Inr (None, w)
               | Some (english_result, method1) \<Rightarrow>
                   if is_offline_available (ustr ''en'') tgt then
                     (let (second, w) = translate_with_ai e w english_result (ustr ''en'') tgt
                      in case truthy second of
                           None \<Rightarrow> Inr (None, w)
                         | Some (final_result, method2) \<Rightarrow>
                             (let (now, w) = time_time e w;
                                  res = \<lparr> translation = final_result, source_lang = src,
                                          method_name = ustr ''AI Model via English Pivot (Offline)'',
                                          time = now - start_time,
                                          confidence = 0.85, cached = False,
                                          offline = Some True, pivot = Some True, error = None \<rparr>
                              in case cache_translation e w text src tgt res 3600 of
                                   Inl err \<Rightarrow> Inl err
                                 | Inr w \<Rightarrow> Inr (Some res, w)))
                   else Inr (None, w))
         else Inr (None, w))"

text \<open>
  The message of the fallback result. The separator between the two language codes is
  the three code points that the source file holds there, between two spaces.
\<close>

definition fallback_error :: "pystr \<Rightarrow> pystr \<Rightarrow> pystr" where
  "fallback_error src tgt =
     ustr ''No offline model available for '' @ src @ [0x20, 0xE2, 0x2020, 0x2019, 0x20] @ tgt"

text \<open>\<open>OfflineTranslator.smart_translate\<close>\<close>

definition offline_smart_translate ::
  "config \<Rightarrow> env \<Rightarrow> world \<Rightarrow> pystr \<Rightarrow> pystr \<Rightarrow> pystr
     \<Rightarrow> py_error + (result option \<times> world)" where
  "offline_smart_translate cfg e w text src tgt =
     (let (start_time, w) = time_time e w;
          (src, w) = (if src = ustr ''auto''
                      then (case detect_language e w text of
                              ((detected_lang, conf), w) \<Rightarrow> (detected_lang, w))
                      else (src, w))
      in case get_cached_translation e w text src tgt of
           Inl err \<Rightarrow> Inl err
         | Inr (Some cached_result, w) \<Rightarrow>
             (let (now, w) = time_time e w
              in Inr (Some (cached_result\<lparr>time := now - start_time, cached := True\<rparr>), w))
         | Inr (None, w) \<Rightarrow>
             (let (ai, w) = (if use_ai_models cfg \<and> is_offline_available src tgt
                             then (let (r, w) = translate_with_ai e w text src tgt
                                   in (truthy r, w))
                             else (None, w))
              in case ai of
                   Some (ai_result, ai_method) \<Rightarrow>
                     (let (now, w) = time_time e w;
                          res = \<lparr> translation = ai_result, source_lang = src,
                                  method_name = ai_method @ ustr '' (Offline)'',
                                  time = now - start_time,
                                  confidence = 0.92, cached = False,
                                  offline = Some True, pivot = None, error = None \<rparr>
                      in case cache_translation e w text src tgt res 3600 of
                           Inl err \<Rightarrow> Inl err
                         | Inr w \<Rightarrow> Inr (Some res, w))
                 | None \<Rightarrow>
                     if offline_mode cfg then
                       (case (if src \<noteq> ustr ''en'' \<and> tgt \<noteq> ustr ''en''
                              then translate_via_english_pivot e w text src tgt
                              else Inr (None, w)) of
                          Inl err \<Rightarrow> Inl err
                        | Inr (Some pivot_result, w) \<Rightarrow> Inr (Some pivot_result, w)
                        | Inr (None, w) \<Rightarrow>
                            (let (now, w) = time_time e w
                             in Inr (Some \<lparr> translation = text, source_lang = src,
                                            method_name = ustr ''Offline Fallback'',
                                            time = now - start_time,
                                            confidence = 0.1, cached = False,
                                            offline = Some True, pivot = None,
                                            error = Some (fallback_error src tgt) \<rparr>, w)))
                     else
                       (let (gg, w) = (if use_google_translate cfg
                                       then (let (r, w) = translate_with_google e w text src tgt
                                             in (truthy r, w))
                                       else (None, w))
                        in case gg of
                             Some (google_result, detected_lang, google_method) \<Rightarrow>
                               (let (now, w) = time_time e w;
                                    res = \<lparr> translation = google_result,
                                            source_lang = detected_lang,
                                            method_name = google_method @ ustr '' (Online)'',
                                            time = now - start_time,
                                            confidence = 0.90, cached = False,
                                            offline = Some False, pivot = None, error = None \<rparr>
                                in case cache_translation e w text src tgt res 3600 of
                                     Inl err \<Rightarrow> Inl err
                                   | Inr w \<Rightarrow> Inr (Some res, w))
                           | None \<Rightarrow>
                               (let (mm, w) = (if use_mymemory cfg
                                               then (let (r, w) =
                                                           translate_with_mymemory e w text src tgt
                                                     in (truthy r, w))
                                               else (None, w))
                                in case mm of
                                     Some (mymemory_result, mymemory_method) \<Rightarrow>
                                       (let (now, w) = time_time e w;
                                            res = \<lparr> translation = mymemory_result,
                                                    source_lang = src,
                                                    method_name =
                                                      mymemory_method @ ustr '' (Online)'',
                                                    time = now - start_time,
                                                    confidence = 0.80, cached = False,
                                                    offline = Some False, pivot = None,
                                                    error = None \<rparr>
                                        in case cache_translation e w text src tgt res 3600 of
                                             Inl err \<Rightarrow> Inl err
                                           | Inr w \<Rightarrow> Inr (Some res, w))
                                   | None \<Rightarrow> Inr (None, w)))))"

section \<open>Stages of a dispatch\<close>

text \<open>
  Both dispatchers, and each Google attempt, start by resolving the source language:
  \<open>if source_lang == 'auto': detected_lang, confidence = self.detect_language(text);
  source_lang = detected_lang\<close>. The properties below name the outcome of that step.
\<close>

definition resolve_source :: "env \<Rightarrow> world \<Rightarrow> pystr \<Rightarrow> pystr \<Rightarrow> pystr \<times> world" where
  "resolve_source e w text src =
     (if src = ustr ''auto''
      then (case detect_language e w text of ((detected_lang, conf), w) \<Rightarrow> (detected_lang, w))
      else (src, w))"

text \<open>The calls of the three backends among the interactions recorded in a state.\<close>

fun is_backend_call :: "call \<Rightarrow> bool" where
  "is_backend_call (Model_generate h piece) = True"
| "is_backend_call (Google_translate src tgt piece) = True"
| "is_backend_call (MyMemory_translate src tgt piece) = True"
| "is_backend_call c = False"

definition backend_calls :: "world \<Rightarrow> call list" where
  "backend_calls w = filter is_backend_call (trace w)"

text \<open>
  The two local attempts of the offline dispatcher, as it makes them: the direct model,
  when models are in use and the pair is in the table, and the English pivot, when
  neither language is English.
\<close>

definition direct_attempt ::
  "config \<Rightarrow> env \<Rightarrow> world \<Rightarrow> pystr \<Rightarrow> pystr \<Rightarrow> pystr \<Rightarrow> (pystr \<times> pystr) option \<times> world" where
  "direct_attempt cfg e w text src tgt =
     (if use_ai_models cfg \<and> is_offline_available src tgt
      then (let (r, w) = translate_with_ai e w text src tgt in (truthy r, w))
      else (None, w))"

definition pivot_attempt ::
  "env \<Rightarrow> world \<Rightarrow> pystr \<Rightarrow> pystr \<Rightarrow> pystr \<Rightarrow> py_error + (result option \<times> world)" where
  "pivot_attempt e w text src tgt =
     (if src \<noteq> ustr ''en'' \<and> tgt \<noteq> ustr ''en''
      then translate_via_english_pivot e w text src tgt
      else Inr (None, w))"

definition pivot_method_name :: pystr where
  "pivot_method_name = ustr ''AI Model via English Pivot (Offline)''"

text \<open>What a dispatcher hands back to its caller: the exception, or the result or \<open>None\<close>.\<close>

definition outcome :: "py_error + (result option \<times> world) \<Rightarrow> py_error + result option" where
  "outcome x = map_sum id fst x"

text \<open>
  The tier that a read tries first (Redis when there is a client, the disk cache otherwise)
  holds a result under a key.
\<close>

definition first_tier_holds :: "env \<Rightarrow> world \<Rightarrow> pystr \<Rightarrow> result \<Rightarrow> bool" where
  "first_tier_holds e w k r =
     (if redis_client e then redis_store w k = Some r else disk_store w k = Some r)"

text \<open>
  The key on which a recorded cache operation works, and the interactions recorded
  between two states.
\<close>

fun key_of_call :: "call \<Rightarrow> pystr option" where
  "key_of_call (Redis_get k) = Some k"
| "key_of_call (Redis_setex k ttl v) = Some k"
| "key_of_call (Disk_get k) = Some k"
| "key_of_call (Disk_set k v ttl) = Some k"
| "key_of_call c = None"

definition new_calls :: "world \<Rightarrow> world \<Rightarrow> call list" where
  "new_calls w w' = drop (tick w) (trace w')"


section \<open>A sample environment\<close>

text \<open>
  One outside world in which everything works: no Redis client, a disk cache that is up,
  a model library that loads every model, and collaborators with fixed answers. The
  examples below vary it field by field.
\<close>

definition sample_env :: env where
  "sample_env =
     \<lparr> py_hash = (\<lambda>s. int (length s)),
       md5_hexdigest = (\<lambda>s. ustr ''0123456789abcdef0123456789abcdef''),
       is_word = (\<lambda>c. (48 \<le> c \<and> c \<le> 57) \<or> (65 \<le> c \<and> c \<le> 90) \<or> c = 95
                      \<or> (97 \<le> c \<and> c \<le> 122)),
       clock = (\<lambda>n. real n),
       detect = (\<lambda>n s. Some (ustr ''fr'')),
       tokenizer_from_pretrained = (\<lambda>n name. Some 1),
       model_from_pretrained = (\<lambda>n name. Some 2),
       model_generate = (\<lambda>n h s. Some (ustr ''hola'')),
       google = (\<lambda>n s t x. Some (ustr ''ola'')),
       mymemory = (\<lambda>n s t x. Some (ustr ''alo'')),
       redis_client = False,
       redis_ok = (\<lambda>n. True),
       disk_ok = (\<lambda>n. True) \<rparr>"

definition empty_world :: world where
  "empty_world =
     \<lparr> trace = [], model_cache = Map.empty, redis_store = Map.empty, disk_store = Map.empty \<rparr>"

text \<open>
  A world in which no backend gives a usable answer: the model and Google answer with the
  empty string, MyMemory raises.
\<close>

definition failing_env :: env where
  "failing_env = sample_env\<lparr> model_generate := (\<lambda>n h s. Some []),
                              google := (\<lambda>n s t x. Some []),
                              mymemory := (\<lambda>n s t x. None) \<rparr>"

text \<open>The settings with every backend enabled, offline mode forced or not.\<close>

definition offline_cfg :: config where
  "offline_cfg = \<lparr> offline_mode = True, use_ai_models = True, use_google_translate = True,
                   use_mymemory = True \<rparr>"

definition online_cfg :: config where
  "online_cfg = \<lparr> offline_mode = False, use_ai_models = True, use_google_translate = True,
                  use_mymemory = True \<rparr>"

text \<open>A world in which no model can be loaded.\<close>

definition no_model_env :: env where
  "no_model_env = sample_env\<lparr> tokenizer_from_pretrained := (\<lambda>n name. None) \<rparr>"

text \<open>The worlds passed through by the first request for Hello, from English to Spanish.\<close>

definition hello_w1 :: world where
  "hello_w1 = log_call Time_time empty_world"

definition hello_w3 :: world where
  "hello_w3 = log_call (Disk_get (ustr ''trans:en:es:5'')) hello_w1"

definition hello_w4 :: world where
  "hello_w4 = log_call (Model_generate (Handle 1 2) (ustr ''Hello''))
     ((log_call (Model_from_pretrained (ustr ''Helsinki-NLP/opus-mt-en-es''))
        (log_call (Tokenizer_from_pretrained (ustr ''Helsinki-NLP/opus-mt-en-es'')) hello_w3))
        \<lparr>model_cache := (model_cache hello_w3)(ustr ''Helsinki-NLP/opus-mt-en-es'' \<mapsto> Handle 1 2)\<rparr>)"

definition hello_w5 :: world where
  "hello_w5 = log_call Time_time hello_w4"

text \<open>
  The world after the result of that request has been written to the disk cache, and the
  results the two dispatchers build for it.
\<close>

definition hello_w6 :: "result \<Rightarrow> world" where
  "hello_w6 res = (log_call (Disk_set (ustr ''trans:en:es:5'') res 3600) hello_w5)
                    \<lparr>disk_store := (disk_store hello_w5)(ustr ''trans:en:es:5'' \<mapsto> res)\<rparr>"

definition hello_result :: result where
  "hello_result = \<lparr> translation = ustr ''hola'', source_lang = ustr ''en'',
                     method_name = ai_method_name, time = 5, confidence = 0.95, cached = False,
                     offline = None, pivot = None, error = None \<rparr>"

definition hello_offline_result :: result where
  "hello_offline_result = \<lparr> translation = ustr ''hola'', source_lang = ustr ''en'',
                     method_name = ai_method_name @ ustr '' (Offline)'', time = 5,
                     confidence = 0.92, cached = False,
                     offline = Some True, pivot = None, error = None \<rparr>"

text \<open>
  A world whose models translate the Spanish Hola into the English Hello and anything else
  into the German Hallo.
\<close>

definition pivot_env :: env where
  "pivot_env = sample_env\<lparr> model_generate :=
      (\<lambda>n h s. if s = ustr ''Hola'' then Some (ustr ''Hello'') else Some (ustr ''Hallo'')) \<rparr>"

text \<open>
  A world like the sample one, except that the disk cache fails at one moment: the eighth
  interaction, which is the cache read of a second request.
\<close>

definition flaky_env :: env where
  "flaky_env = sample_env\<lparr> disk_ok := (\<lambda>n. n \<noteq> 8) \<rparr>"

text \<open>
  A text of 401 characters, and a world whose model answers a chunk of 400 characters
  with one word and any other chunk with another.
\<close>

definition long_text :: pystr where
  "long_text = replicate 400 97 @ [98]"

definition chunk_env :: env where
  "chunk_env = sample_env\<lparr> model_generate :=
      (\<lambda>n h s. if length s = 400 then Some (ustr ''uno'') else Some (ustr ''dos'')) \<rparr>"


section \<open>Input validation and language detection\<close>

lemma err_msgs_distinct:
  "err_same_language \<noteq> err_empty" "err_same_language \<noteq> err_too_long"
  by (simp_all add: err_same_language_def err_empty_def err_too_long_def ustr_def)

text \<open>
  Claim C7. For every string \<open>text\<close> and every language code \<open>L\<close> other than \<open>auto\<close>,
  \<open>validate_input(text, L, L)\<close> returns a non-empty list of errors, which holds the
  same-language error; and \<open>validate_input(text, "auto", L)\<close> returns a list without the
  same-language error.
\<close>

theorem validate_input_same_language:
  assumes "L \<noteq> ustr ''auto''"
  shows "(\<exists>errors. validate_input (Some text) L L = Inr errors \<and> errors \<noteq> []
            \<and> err_same_language \<in> set errors)
       \<and> (\<exists>errors. validate_input (Some text) (ustr ''auto'') L = Inr errors
            \<and> err_same_language \<notin> set errors)"
  using assms err_msgs_distinct by (auto simp: validate_input_def Let_def)

theorem validate_input_same_language_witness:
  "ustr ''en'' \<noteq> ustr ''auto''
   \<and> validate_input (Some (ustr ''Hello'')) (ustr ''en'') (ustr ''en'') = Inr [err_same_language]
   \<and> validate_input (Some (ustr ''Hello'')) (ustr ''auto'') (ustr ''en'') = Inr []"
proof -
  have h: "ustr ''en'' \<noteq> ustr ''auto''" by (simp add: ustr_def)
  have s: "strip (ustr ''Hello'') \<noteq> []"
    by (simp add: strip_def lstrip_def rstrip_def ustr_def isspace_def)
  from validate_input_same_language [OF h, of "ustr ''Hello''"] h s show ?thesis
    by (simp add: validate_input_def Let_def ustr_def)
qed

text \<open>
  Claim C8. For every string whose length after \<open>strip\<close> is less than 3 (the empty string
  among them), \<open>detect_language\<close> returns \<open>("en", 0.3)\<close>, whatever the outside world is,
  and leaves the state as it was: the trace gets no call of the detector.
\<close>

theorem detect_language_short:
  assumes "length (strip text) < 3"
  shows "detect_language e w text = ((ustr ''en'', 0.3), w)"
  using assms by (simp add: detect_language_def)

theorem detect_language_short_witness:
  "length (strip (ustr '' Hi '')) < 3
   \<and> detect_language sample_env empty_world (ustr '' Hi '') = ((ustr ''en'', 0.3), empty_world)
   \<and> detect_language sample_env empty_world [] = ((ustr ''en'', 0.3), empty_world)"
proof -
  have h: "length (strip (ustr '' Hi '')) < 3"
    by (simp add: strip_def lstrip_def rstrip_def ustr_def isspace_def)
  have h0: "length (strip []) < 3"
    by (simp add: strip_def lstrip_def rstrip_def)
  from detect_language_short [OF h] detect_language_short [OF h0] h show ?thesis by simp
qed

text \<open>
  Claim C10. On \<open>None\<close> for the text \<open>validate_input\<close> raises \<open>TypeError\<close>: the length
  test runs although the emptiness test has already recorded an error. On every string it
  returns a list of errors.
\<close>

theorem validate_input_none_raises:
  "validate_input None src tgt = Inl TypeError
   \<and> (\<exists>errors. validate_input (Some text) src tgt = Inr errors)"
  by (simp add: validate_input_def Let_def)

theorem validate_input_none_raises_witness:
  "validate_input None (ustr ''en'') (ustr ''es'') = Inl TypeError
   \<and> validate_input (Some []) (ustr ''en'') (ustr ''es'') = Inr [err_empty]"
  using validate_input_none_raises [of "ustr ''en''" "ustr ''es''" "[]"]
  by (simp add: validate_input_def Let_def ustr_def)

section \<open>Total failure of the dispatcher\<close>

lemma failing_env_sel:
  "py_hash failing_env = (\<lambda>s. int (length s))"
  "clock failing_env = real"
  "tokenizer_from_pretrained failing_env = (\<lambda>n name. Some 1)"
  "model_from_pretrained failing_env = (\<lambda>n name. Some 2)"
  "model_generate failing_env = (\<lambda>n h s. Some [])"
  "google failing_env = (\<lambda>n s t x. Some [])"
  "mymemory failing_env = (\<lambda>n s t x. None)"
  "redis_client failing_env = False"
  "disk_ok failing_env = (\<lambda>n. True)"
  by (simp_all add: failing_env_def sample_env_def)

lemma hello_strip: "strip (ustr ''Hello'') \<noteq> []"
  by (simp add: strip_def lstrip_def rstrip_def ustr_def isspace_def)

lemma key_hello_failing:
  "translation_key failing_env (ustr ''Hello'') (ustr ''en'') (ustr ''es'')
     = Inr (ustr ''trans:en:es:5'')"
  by (simp add: translation_key_def make_key_def failing_env_sel str_int_def ustr_def)

text \<open>
  Claim C1. When the cache probe misses and each of the three backends, tried in the order
  model, Google, MyMemory, gives no usable answer, \<open>smart_translate\<close> returns \<open>None\<close> and
  not a result with an empty translation. An answer is unusable when it is \<open>None\<close> or its
  text is the empty string (\<open>truthy\<close>); the state returned is the one after the MyMemory
  attempt, so an empty answer of one backend made the chain go on to the next.
\<close>

theorem smart_translate_total_failure:
  assumes "time_time e w = (start_time, w1)"
    and "resolve_source e w1 text src = (src', w2)"
    and "get_cached_translation e w2 text src' tgt = Inr (None, w3)"
    and "translate_with_ai e w3 text src' tgt = (ai, w4)"
    and "truthy ai = None"
    and "translate_with_google e w4 text src' tgt = (gg, w5)"
    and "truthy gg = None"
    and "translate_with_mymemory e w5 text src' tgt = (mm, w6)"
    and "truthy mm = None"
  shows "smart_translate e w text src tgt = Inr (None, w6)"
  using assms by (simp add: smart_translate_def resolve_source_def)

theorem smart_translate_total_failure_witness:
  "map_sum id fst
     (smart_translate failing_env empty_world (ustr ''Hello'') (ustr ''en'') (ustr ''es''))
     = Inr None
   \<and> map_sum id (backend_calls \<circ> snd)
     (smart_translate failing_env empty_world (ustr ''Hello'') (ustr ''en'') (ustr ''es''))
     = Inr [Model_generate (Handle 1 2) (ustr ''Hello''),
            Google_translate (ustr ''en'') (ustr ''es'') (ustr ''Hello''),
            MyMemory_translate (ustr ''en'') (ustr ''es'') (ustr ''Hello'')]"
proof -
  let ?e = failing_env and ?t = "ustr ''Hello''" and ?s = "ustr ''en''" and ?g = "ustr ''es''"
  let ?name = "ustr ''Helsinki-NLP/opus-mt-'' @ ?s @ ustr ''-'' @ ?g"
  define w1 where "w1 = log_call Time_time empty_world"
  define w3 where "w3 = log_call (Disk_get (ustr ''trans:en:es:5'')) w1"
  define w4 where "w4 = log_call (Model_generate (Handle 1 2) ?t)
     ((log_call (Model_from_pretrained ?name) (log_call (Tokenizer_from_pretrained ?name) w3))
        \<lparr>model_cache := (model_cache w3)(?name \<mapsto> Handle 1 2)\<rparr>)"
  define w5 where "w5 = log_call (Google_translate ?s ?g ?t) w4"
  define w6 where "w6 = log_call (MyMemory_translate ?s ?g ?t) w5"
  have a1: "time_time ?e empty_world = (0, w1)"
    by (simp add: time_time_def w1_def tick_def empty_world_def failing_env_sel)
  have a2: "resolve_source ?e w1 ?t ?s = (?s, w1)"
    by (simp add: resolve_source_def ustr_def)
  have a3: "get_cached_translation ?e w1 ?t ?s ?g = Inr (None, w3)"
    by (simp add: get_cached_translation_def key_hello_failing failing_env_sel disk_get_def
        w3_def w1_def log_call_def empty_world_def)
  have mc: "model_cache w3 ?name = None"
    by (simp add: w3_def w1_def log_call_def empty_world_def)
  have a4: "translate_with_ai ?e w3 ?t ?s ?g = (Some ([], ai_method_name), w4)"
    using hello_strip mc
    by (simp add: translate_with_ai_def load_ai_model_def run_model_def failing_env_sel Let_def
        w4_def log_call_def ustr_def)
  have a5: "truthy (Some ([], ai_method_name)) = None" by (simp add: truthy_def)
  have a6: "translate_with_google ?e w4 ?t ?s ?g = (Some ([], ?s, ustr ''Google Translate''), w5)"
    by (simp add: translate_with_google_def google_call_def failing_env_sel Let_def w5_def
        eval_nat_numeral ustr_def)
  have a7: "truthy (Some ([], ?s, ustr ''Google Translate'')) = None" by (simp add: truthy_def)
  have a8: "translate_with_mymemory ?e w5 ?t ?s ?g = (None, w6)"
    by (simp add: translate_with_mymemory_def mymemory_call_def failing_env_sel Let_def w6_def
        ustr_def)
  have a9: "truthy (None :: (pystr \<times> pystr) option) = None" by (simp add: truthy_def)
  have tr: "backend_calls w6
            = [Model_generate (Handle 1 2) ?t, Google_translate ?s ?g ?t, MyMemory_translate ?s ?g ?t]"
    by (simp add: backend_calls_def w6_def w5_def w4_def w3_def w1_def log_call_def empty_world_def)
  from smart_translate_total_failure [OF a1 a2 a3 a4 a5 a6 a7 a8 a9] tr show ?thesis by simp
qed

section \<open>The fallback of the offline dispatcher\<close>

lemma fallback_error_nonempty: "fallback_error src tgt \<noteq> []"
  by (simp add: fallback_error_def ustr_def)

lemma offline_not_none:
  assumes off: "offline_mode cfg"
  shows "offline_smart_translate cfg e w text src tgt \<noteq> Inr (None, w')"
proof -
  obtain t0 w1 where a: "time_time e w = (t0, w1)" by force
  obtain s' w2 where b: "resolve_source e w1 text src = (s', w2)" by force
  note defs = offline_smart_translate_def resolve_source_def direct_attempt_def pivot_attempt_def
  show ?thesis
  proof (cases "get_cached_translation e w2 text s' tgt")
    case (Inl err)
    with a b show ?thesis by (simp add: defs)
  next
    case (Inr p)
    obtain c w3 where p: "p = (c, w3)" by force
    show ?thesis
    proof (cases c)
      case (Some r)
      obtain t1 w4 where t: "time_time e w3 = (t1, w4)" by force
      from a b Inr p Some t show ?thesis by (simp add: defs)
    next
      case None
      obtain d w4 where d: "direct_attempt cfg e w3 text s' tgt = (d, w4)" by force
      show ?thesis
      proof (cases d)
        case (Some am)
        obtain ai_result ai_method where am: "am = (ai_result, ai_method)" by force
        obtain t1 w5 where t: "time_time e w4 = (t1, w5)" by force
        from a b Inr p None d Some am t show ?thesis
          by (simp add: defs Let_def split: sum.splits)
      next
        case dn: None
        show ?thesis
        proof (cases "pivot_attempt e w4 text s' tgt")
          case (Inl err)
          from a b Inr p None d dn Inl off show ?thesis by (simp add: defs)
        next
          case pv: (Inr q)
          obtain pr w5 where q: "q = (pr, w5)" by force
          obtain t1 w6 where t: "time_time e w5 = (t1, w6)" by force
          from a b Inr p None d dn pv q t off show ?thesis
            by (cases pr) (simp_all add: defs)
        qed
      qed
    qed
  qed
qed

lemma offline_fallback_result:
  assumes "offline_mode cfg"
    and "time_time e w = (start_time, w1)"
    and "resolve_source e w1 text src = (src', w2)"
    and "get_cached_translation e w2 text src' tgt = Inr (None, w3)"
    and "direct_attempt cfg e w3 text src' tgt = (None, w4)"
    and "pivot_attempt e w4 text src' tgt = Inr (None, w5)"
    and "time_time e w5 = (now, w6)"
  shows "offline_smart_translate cfg e w text src tgt =
           Inr (Some \<lparr> translation = text, source_lang = src',
                       method_name = ustr ''Offline Fallback'', time = now - start_time,
                       confidence = 0.1, cached = False, offline = Some True, pivot = None,
                       error = Some (fallback_error src' tgt) \<rparr>, w6)"
  using assms
  by (simp add: offline_smart_translate_def resolve_source_def direct_attempt_def pivot_attempt_def)


lemma pairs_es_de:
  "\<not> is_offline_available (ustr ''es'') (ustr ''de'')"
  "is_offline_available (ustr ''es'') (ustr ''en'')"
  "is_offline_available (ustr ''en'') (ustr ''de'')"
  "is_offline_available (ustr ''en'') (ustr ''es'')"
  by (simp_all add: is_offline_available_def offline_pairs_def ustr_def)

lemma no_model_env_sel:
  "py_hash no_model_env = (\<lambda>s. int (length s))"
  "clock no_model_env = real"
  "tokenizer_from_pretrained no_model_env = (\<lambda>n name. None)"
  "redis_client no_model_env = False"
  "disk_ok no_model_env = (\<lambda>n. True)"
  by (simp_all add: no_model_env_def sample_env_def)

lemma key_hello_es_de:
  "py_hash e = (\<lambda>s. int (length s)) \<Longrightarrow>
   translation_key e (ustr ''Hello'') (ustr ''es'') (ustr ''de'') = Inr (ustr ''trans:es:de:5'')"
  by (simp add: translation_key_def make_key_def str_int_def ustr_def)

text \<open>
  Claim C9. With offline mode forced, \<open>OfflineTranslator.smart_translate\<close> never returns
  \<open>None\<close>. When the cache probe misses, the direct local model gives no result and the
  English pivot gives none, it returns the fallback result: the input text unchanged as
  translation, method \<open>Offline Fallback\<close>, confidence 0.1, the offline flag set and an
  error message, which is not empty.
\<close>

theorem offline_mode_fallback:
  assumes "offline_mode cfg"
  shows "offline_smart_translate cfg e w text src tgt \<noteq> Inr (None, w')
       \<and> (time_time e w = (start_time, w1) \<longrightarrow>
          resolve_source e w1 text src = (src', w2) \<longrightarrow>
          get_cached_translation e w2 text src' tgt = Inr (None, w3) \<longrightarrow>
          direct_attempt cfg e w3 text src' tgt = (None, w4) \<longrightarrow>
          pivot_attempt e w4 text src' tgt = Inr (None, w5) \<longrightarrow>
          time_time e w5 = (now, w6) \<longrightarrow>
            offline_smart_translate cfg e w text src tgt =
              Inr (Some \<lparr> translation = text, source_lang = src',
                          method_name = ustr ''Offline Fallback'', time = now - start_time,
                          confidence = 0.1, cached = False, offline = Some True, pivot = None,
                          error = Some (fallback_error src' tgt) \<rparr>, w6)
            \<and> fallback_error src' tgt \<noteq> [])"
proof (intro conjI impI)
  show "offline_smart_translate cfg e w text src tgt \<noteq> Inr (None, w')"
    using assms by (rule offline_not_none)
next
  assume "time_time e w = (start_time, w1)"
    and "resolve_source e w1 text src = (src', w2)"
    and "get_cached_translation e w2 text src' tgt = Inr (None, w3)"
    and "direct_attempt cfg e w3 text src' tgt = (None, w4)"
    and "pivot_attempt e w4 text src' tgt = Inr (None, w5)"
    and "time_time e w5 = (now, w6)"
  with assms show "offline_smart_translate cfg e w text src tgt =
      Inr (Some \<lparr> translation = text, source_lang = src',
                  method_name = ustr ''Offline Fallback'', time = now - start_time,
                  confidence = 0.1, cached = False, offline = Some True, pivot = None,
                  error = Some (fallback_error src' tgt) \<rparr>, w6)"
    by (rule offline_fallback_result)
next
  show "fallback_error src' tgt \<noteq> []" by (rule fallback_error_nonempty)
qed

theorem offline_mode_fallback_witness:
  "offline_mode offline_cfg
   \<and> outcome (offline_smart_translate offline_cfg no_model_env empty_world
              (ustr ''Hello'') (ustr ''es'') (ustr ''de''))
   = Inr (Some \<lparr> translation = ustr ''Hello'', source_lang = ustr ''es'',
                  method_name = ustr ''Offline Fallback'', time = 4,
                  confidence = 0.1, cached = False, offline = Some True, pivot = None,
                  error = Some (fallback_error (ustr ''es'') (ustr ''de'')) \<rparr>)"
proof -
  let ?e = no_model_env and ?t = "ustr ''Hello''" and ?s = "ustr ''es''" and ?g = "ustr ''de''"
  let ?name = "ustr ''Helsinki-NLP/opus-mt-'' @ ?s @ ustr ''-'' @ ustr ''en''"
  define w1 where "w1 = log_call Time_time empty_world"
  define w3 where "w3 = log_call (Disk_get (ustr ''trans:es:de:5'')) w1"
  define w4 where "w4 = log_call Time_time w3"
  define w5 where "w5 = log_call (Tokenizer_from_pretrained ?name) w4"
  define w6 where "w6 = log_call Time_time w5"
  have off: "offline_mode offline_cfg" by (simp add: offline_cfg_def)
  have a1: "time_time ?e empty_world = (0, w1)"
    by (simp add: time_time_def w1_def tick_def empty_world_def no_model_env_sel)
  have a2: "resolve_source ?e w1 ?t ?s = (?s, w1)"
    by (simp add: resolve_source_def ustr_def)
  have a3: "get_cached_translation ?e w1 ?t ?s ?g = Inr (None, w3)"
    by (simp add: get_cached_translation_def key_hello_es_de no_model_env_sel disk_get_def
        w3_def w1_def log_call_def empty_world_def)
  have a4: "direct_attempt offline_cfg ?e w3 ?t ?s ?g = (None, w3)"
    by (simp add: direct_attempt_def pairs_es_de)
  have mc: "model_cache w4 ?name = None"
    by (simp add: w4_def w3_def w1_def log_call_def empty_world_def)
  have ai: "translate_with_ai ?e w4 ?t ?s (ustr ''en'') = (None, w5)"
    using hello_strip mc
    by (simp add: translate_with_ai_def load_ai_model_def no_model_env_sel Let_def w5_def)
  have ne: "?s \<noteq> ustr ''en''" "?g \<noteq> ustr ''en''" by (simp_all add: ustr_def)
  have a5: "pivot_attempt ?e w3 ?t ?s ?g = Inr (None, w5)"
    using ne ai
    by (simp add: pivot_attempt_def translate_via_english_pivot_def pairs_es_de time_time_def
        w4_def truthy_def)
  have a6: "time_time ?e w5 = (4, w6)"
    by (simp add: time_time_def tick_def no_model_env_sel w6_def w5_def w4_def w3_def w1_def
        log_call_def empty_world_def)
  from offline_mode_fallback [OF off, THEN conjunct2, rule_format, OF a1 a2 a3 a4 a5 a6] off
  show ?thesis by (simp add: outcome_def)
qed

section \<open>Which backend answered\<close>

lemma translate_with_ai_method:
  "translate_with_ai e w text src tgt = (Some (r, m), w') \<Longrightarrow> m = ai_method_name"
  by (auto simp: translate_with_ai_def Let_def split: if_splits prod.splits option.splits)

lemma google_attempts_method:
  "google_attempts e n w text src tgt = (Some (r, d, m), w') \<Longrightarrow> m = ustr ''Google Translate''"
proof (induction n arbitrary: w src)
  case 0
  then show ?case by simp
next
  case (Suc n)
  then show ?case
    by (auto simp: Let_def split: if_splits prod.splits option.splits)
qed

lemma translate_with_google_method:
  "translate_with_google e w text src tgt = (Some (r, d, m), w') \<Longrightarrow> m = ustr ''Google Translate''"
  by (simp add: translate_with_google_def google_attempts_method)

lemma translate_with_mymemory_method:
  "translate_with_mymemory e w text src tgt = (Some (r, m), w') \<Longrightarrow> m = ustr ''MyMemory''"
  by (auto simp: translate_with_mymemory_def Let_def split: if_splits prod.splits option.splits)

lemma truthy_Some: "truthy x = Some (r, y) \<Longrightarrow> x = Some (r, y) \<and> r \<noteq> []"
  by (auto simp: truthy_def split: option.splits if_splits)

lemma pivot_shape:
  assumes "translate_via_english_pivot e w text src tgt = Inr (Some r, w')"
  shows "method_name r = pivot_method_name \<and> confidence r = 0.85 \<and> pivot r = Some True"
  using assms
  by (auto simp: translate_via_english_pivot_def pivot_method_name_def Let_def
      split: prod.splits if_splits option.splits sum.splits)

lemma truthy_ai_method:
  assumes "translate_with_ai e w text src tgt = (ai, w')" and "truthy ai = Some (r, m)"
  shows "m = ai_method_name"
proof -
  from assms(2) have "ai = Some (r, m)" by (rule truthy_Some [THEN conjunct1])
  with assms(1) show ?thesis by (auto dest: translate_with_ai_method)
qed

lemma truthy_google_method:
  assumes "translate_with_google e w text src tgt = (gg, w')" and "truthy gg = Some (r, d, m)"
  shows "m = ustr ''Google Translate''"
proof -
  from assms(2) have "gg = Some (r, d, m)" by (rule truthy_Some [THEN conjunct1])
  with assms(1) show ?thesis by (auto dest: translate_with_google_method)
qed

lemma truthy_mymemory_method:
  assumes "translate_with_mymemory e w text src tgt = (mm, w')" and "truthy mm = Some (r, m)"
  shows "m = ustr ''MyMemory''"
proof -
  from assms(2) have "mm = Some (r, m)" by (rule truthy_Some [THEN conjunct1])
  with assms(1) show ?thesis by (auto dest: translate_with_mymemory_method)
qed

lemma smart_translate_shapes:
  assumes run: "smart_translate e w text src tgt = Inr (Some r, w')" and fresh: "\<not> cached r"
  shows "(method_name r = ai_method_name \<and> confidence r = 0.95)
       \<or> (method_name r = ustr ''Google Translate'' \<and> confidence r = 0.90)
       \<or> (method_name r = ustr ''MyMemory'' \<and> confidence r = 0.80)"
proof -
  obtain t0 w1 where a: "time_time e w = (t0, w1)" by force
  obtain s' w2 where b: "resolve_source e w1 text src = (s', w2)" by force
  note defs = smart_translate_def resolve_source_def
  show ?thesis
  proof (cases "get_cached_translation e w2 text s' tgt")
    case (Inl err)
    with a b run show ?thesis by (simp add: defs)
  next
    case (Inr p)
    obtain c w3 where p: "p = (c, w3)" by force
    show ?thesis
    proof (cases c)
      case (Some cr)
      obtain t1 w4 where t: "time_time e w3 = (t1, w4)" by force
      from a b Inr p Some t run have "r = cr\<lparr>time := t1 - t0, cached := True\<rparr>"
        by (simp add: defs)
      with fresh show ?thesis by simp
    next
      case None
      obtain ai w4 where ai: "translate_with_ai e w3 text s' tgt = (ai, w4)" by force
      show ?thesis
      proof (cases "truthy ai")
        case (Some am)
        obtain ai_result ai_method where am: "am = (ai_result, ai_method)" by force
        obtain t1 w5 where t: "time_time e w4 = (t1, w5)" by force
        from Some am ai have m: "ai_method = ai_method_name"
          using truthy_ai_method by simp
        from a b Inr p None ai Some am t run
        have "r = \<lparr> translation = ai_result, source_lang = s', method_name = ai_method,
                    time = t1 - t0, confidence = 0.95, cached = False,
                    offline = None, pivot = None, error = None \<rparr>"
          by (simp add: defs Let_def split: sum.splits)
        with m show ?thesis by simp
      next
        case an: None
        obtain gg w5 where gg: "translate_with_google e w4 text s' tgt = (gg, w5)" by force
        show ?thesis
        proof (cases "truthy gg")
          case (Some gm)
          obtain google_result detected_lang google_method
            where gm: "gm = (google_result, detected_lang, google_method)"
            by (cases gm) simp
          obtain t1 w6 where t: "time_time e w5 = (t1, w6)" by force
          from Some gm gg have m: "google_method = ustr ''Google Translate''"
            using truthy_google_method by simp
          from a b Inr p None ai an gg Some gm t run
          have "r = \<lparr> translation = google_result, source_lang = detected_lang,
                      method_name = google_method, time = t1 - t0, confidence = 0.90,
                      cached = False, offline = None, pivot = None, error = None \<rparr>"
            by (simp add: defs Let_def split: sum.splits)
          with m show ?thesis by simp
        next
          case gn: None
          obtain mm w6 where mm: "translate_with_mymemory e w5 text s' tgt = (mm, w6)" by force
          show ?thesis
          proof (cases "truthy mm")
            case (Some mr)
            obtain mymemory_result mymemory_method where mr: "mr = (mymemory_result, mymemory_method)"
              by force
            obtain t1 w7 where t: "time_time e w6 = (t1, w7)" by force
            from Some mr mm have m: "mymemory_method = ustr ''MyMemory''"
              using truthy_mymemory_method by simp
            from a b Inr p None ai an gg gn mm Some mr t run
            have "r = \<lparr> translation = mymemory_result, source_lang = s',
                        method_name = mymemory_method, time = t1 - t0, confidence = 0.80,
                        cached = False, offline = None, pivot = None, error = None \<rparr>"
              by (simp add: defs Let_def split: sum.splits)
            with m show ?thesis by simp
          next
            case mn: None
            from a b Inr p None ai an gg gn mm mn run show ?thesis by (simp add: defs)
          qed
        qed
      qed
    qed
  qed
qed

lemma direct_attempt_method:
  assumes "direct_attempt cfg e w text src tgt = (Some (r, m), w')"
  shows "m = ai_method_name"
proof -
  from assms obtain ai where ai: "translate_with_ai e w text src tgt = (ai, w')"
    and tr: "truthy ai = Some (r, m)"
    by (auto simp: direct_attempt_def split: if_splits prod.splits)
  then show ?thesis by (rule truthy_ai_method)
qed

lemma offline_gg_method:
  assumes "(if use_google_translate cfg
            then (let (r, w) = translate_with_google e w text src tgt in (truthy r, w))
            else (None, w)) = (Some (r, d, m), w')"
  shows "m = ustr ''Google Translate''"
proof -
  from assms obtain gg where "translate_with_google e w text src tgt = (gg, w')"
    and "truthy gg = Some (r, d, m)"
    by (auto split: if_splits prod.splits)
  then show ?thesis by (rule truthy_google_method)
qed

lemma offline_mm_method:
  assumes "(if use_mymemory cfg
            then (let (r, w) = translate_with_mymemory e w text src tgt in (truthy r, w))
            else (None, w)) = (Some (r, m), w')"
  shows "m = ustr ''MyMemory''"
proof -
  from assms obtain mm where "translate_with_mymemory e w text src tgt = (mm, w')"
    and "truthy mm = Some (r, m)"
    by (auto split: if_splits prod.splits)
  then show ?thesis by (rule truthy_mymemory_method)
qed

lemma offline_smart_translate_shapes:
  assumes run: "offline_smart_translate cfg e w text src tgt = Inr (Some r, w')"
    and fresh: "\<not> cached r"
  shows "(method_name r = ai_method_name @ ustr '' (Offline)'' \<and> confidence r = 0.92
            \<and> pivot r = None)
       \<or> (offline_mode cfg \<and> method_name r = pivot_method_name \<and> confidence r = 0.85
            \<and> pivot r = Some True)
       \<or> (offline_mode cfg \<and> method_name r = ustr ''Offline Fallback'' \<and> confidence r = 0.1
            \<and> pivot r = None)
       \<or> (\<not> offline_mode cfg \<and> method_name r = ustr ''Google Translate'' @ ustr '' (Online)''
            \<and> confidence r = 0.90 \<and> pivot r = None)
       \<or> (\<not> offline_mode cfg \<and> method_name r = ustr ''MyMemory'' @ ustr '' (Online)''
            \<and> confidence r = 0.80 \<and> pivot r = None)"
proof -
  obtain t0 w1 where a: "time_time e w = (t0, w1)" by force
  obtain s' w2 where b: "resolve_source e w1 text src = (s', w2)" by force
  note defs = offline_smart_translate_def resolve_source_def direct_attempt_def pivot_attempt_def
  show ?thesis
  proof (cases "get_cached_translation e w2 text s' tgt")
    case (Inl err)
    with a b run show ?thesis by (simp add: defs)
  next
    case (Inr p)
    obtain c w3 where p: "p = (c, w3)" by force
    show ?thesis
    proof (cases c)
      case (Some cr)
      obtain t1 w4 where t: "time_time e w3 = (t1, w4)" by force
      from a b Inr p Some t run have "r = cr\<lparr>time := t1 - t0, cached := True\<rparr>"
        by (simp add: defs)
      with fresh show ?thesis by simp
    next
      case None
      obtain d w4 where d: "direct_attempt cfg e w3 text s' tgt = (d, w4)" by force
      show ?thesis
      proof (cases d)
        case (Some am)
        obtain ai_result ai_method where am: "am = (ai_result, ai_method)" by force
        obtain t1 w5 where t: "time_time e w4 = (t1, w5)" by force
        from d Some am have m: "ai_method = ai_method_name"
          using direct_attempt_method by simp
        from a b Inr p None d Some am t run
        have "r = \<lparr> translation = ai_result, source_lang = s',
                    method_name = ai_method @ ustr '' (Offline)'', time = t1 - t0,
                    confidence = 0.92, cached = False,
                    offline = Some True, pivot = None, error = None \<rparr>"
          by (simp add: defs Let_def split: sum.splits)
        with m show ?thesis by simp
      next
        case dn: None
        show ?thesis
        proof (cases "offline_mode cfg")
          case True
          show ?thesis
          proof (cases "pivot_attempt e w4 text s' tgt")
            case (Inl err)
            from a b Inr p None d dn Inl True run show ?thesis by (simp add: defs)
          next
            case pv: (Inr q)
            obtain pr w5 where q: "q = (pr, w5)" by force
            show ?thesis
            proof (cases pr)
              case pn: None
              obtain t1 w6 where t: "time_time e w5 = (t1, w6)" by force
              from a b Inr p None d dn pv q pn t True run
              have "r = \<lparr> translation = text, source_lang = s',
                          method_name = ustr ''Offline Fallback'', time = t1 - t0,
                          confidence = 0.1, cached = False, offline = Some True, pivot = None,
                          error = Some (fallback_error s' tgt) \<rparr>"
                by (simp add: defs)
              with True show ?thesis by simp
            next
              case (Some pivot_result)
              from a b Inr p None d dn pv q Some True run have r: "r = pivot_result"
                by (simp add: defs)
              from pv q Some have "translate_via_english_pivot e w4 text s' tgt
                                     = Inr (Some pivot_result, w5)"
                by (simp add: pivot_attempt_def split: if_splits)
              from pivot_shape [OF this] r True show ?thesis by simp
            qed
          qed
        next
          case False
          obtain gg w5 where gg: "(if use_google_translate cfg
                then (let (r, w) = translate_with_google e w4 text s' tgt in (truthy r, w))
                else (None, w4)) = (gg, w5)" by force
          show ?thesis
          proof (cases gg)
            case (Some gm)
            obtain google_result detected_lang google_method
              where gm: "gm = (google_result, detected_lang, google_method)"
              by (cases gm) simp
            obtain t1 w6 where t: "time_time e w5 = (t1, w6)" by force
            from gg Some gm have m: "google_method = ustr ''Google Translate''"
              using offline_gg_method by simp
            from a b Inr p None d dn False gg Some gm t run
            have "r = \<lparr> translation = google_result, source_lang = detected_lang,
                        method_name = google_method @ ustr '' (Online)'', time = t1 - t0,
                        confidence = 0.90, cached = False,
                        offline = Some False, pivot = None, error = None \<rparr>"
              by (simp add: defs Let_def split: sum.splits)
            with m False show ?thesis by simp
          next
            case gn: None
            obtain mm w6 where mm: "(if use_mymemory cfg
                  then (let (r, w) = translate_with_mymemory e w5 text s' tgt in (truthy r, w))
                  else (None, w5)) = (mm, w6)" by force
            show ?thesis
            proof (cases mm)
              case (Some mr)
              obtain mymemory_result mymemory_method
                where mr: "mr = (mymemory_result, mymemory_method)" by force
              obtain t1 w7 where t: "time_time e w6 = (t1, w7)" by force
              from mm Some mr have m: "mymemory_method = ustr ''MyMemory''"
                using offline_mm_method by simp
              from a b Inr p None d dn False gg gn mm Some mr t run
              have "r = \<lparr> translation = mymemory_result, source_lang = s',
                          method_name = mymemory_method @ ustr '' (Online)'', time = t1 - t0,
                          confidence = 0.80, cached = False,
                          offline = Some False, pivot = None, error = None \<rparr>"
                by (simp add: defs Let_def split: sum.splits)
              with m False show ?thesis by simp
            next
              case mn: None
              from a b Inr p None d dn False gg gn mm mn run show ?thesis by (simp add: defs)
            qed
          qed
        qed
      qed
    qed
  qed
qed

lemma get_cached_key:
  "get_cached_translation e w text src tgt = Inr x \<Longrightarrow> \<exists>k. translation_key e text src tgt = Inr k"
  by (cases "translation_key e text src tgt") (simp_all add: get_cached_translation_def)

lemma cache_translation_returns:
  "translation_key e text src tgt = Inr k \<Longrightarrow> \<exists>w'. cache_translation e w text src tgt res ttl = Inr w'"
  by (simp add: cache_translation_def split: prod.splits)

lemma pivot_path:
  assumes off: "offline_mode cfg"
    and a: "time_time e w = (start_time, w1)"
    and b: "resolve_source e w1 text src = (src', w2)"
    and c: "get_cached_translation e w2 text src' tgt = Inr (None, w3)"
    and nd: "\<not> is_offline_available src' tgt"
    and ne: "src' \<noteq> ustr ''en''" "tgt \<noteq> ustr ''en''"
    and legs: "is_offline_available src' (ustr ''en'')" "is_offline_available (ustr ''en'') tgt"
    and t1: "time_time e w3 = (pivot_start, w4)"
    and first: "translate_with_ai e w4 text src' (ustr ''en'') = (Some (english_result, method1), w5)"
    and e1: "english_result \<noteq> []"
    and second: "translate_with_ai e w5 english_result (ustr ''en'') tgt
                   = (Some (final_result, method2), w6)"
    and e2: "final_result \<noteq> []"
    and t2: "time_time e w6 = (now, w7)"
  shows "\<exists>w'. offline_smart_translate cfg e w text src tgt =
           Inr (Some \<lparr> translation = final_result, source_lang = src',
                       method_name = pivot_method_name, time = now - pivot_start,
                       confidence = 0.85, cached = False, offline = Some True,
                       pivot = Some True, error = None \<rparr>, w')"
proof -
  let ?res = "\<lparr> translation = final_result, source_lang = src',
                 method_name = pivot_method_name, time = now - pivot_start,
                 confidence = 0.85, cached = False, offline = Some True,
                 pivot = Some True, error = None \<rparr>"
  from c obtain k where k: "translation_key e text src' tgt = Inr k"
    using get_cached_key by blast
  then obtain w' where w': "cache_translation e w7 text src' tgt ?res 3600 = Inr w'"
    using cache_translation_returns by blast
  have tr1: "truthy (Some (english_result, method1)) = Some (english_result, method1)"
    using e1 by (simp add: truthy_def)
  have tr2: "truthy (Some (final_result, method2)) = Some (final_result, method2)"
    using e2 by (simp add: truthy_def)
  have pv: "translate_via_english_pivot e w3 text src' tgt = Inr (Some ?res, w')"
    using legs t1 first tr1 second tr2 t2 w'
    by (simp add: translate_via_english_pivot_def pivot_method_name_def Let_def)
  have "offline_smart_translate cfg e w text src tgt = Inr (Some ?res, w')"
    using off a b c nd ne pv
    by (simp add: offline_smart_translate_def resolve_source_def)
  then show ?thesis by blast
qed

section \<open>Paths through the dispatchers and sample runs\<close>

lemma sample_env_sel:
  "py_hash sample_env = (\<lambda>s. int (length s))"
  "clock sample_env = real"
  "tokenizer_from_pretrained sample_env = (\<lambda>n name. Some 1)"
  "model_from_pretrained sample_env = (\<lambda>n name. Some 2)"
  "model_generate sample_env = (\<lambda>n h s. Some (ustr ''hola''))"
  "google sample_env = (\<lambda>n s t x. Some (ustr ''ola''))"
  "mymemory sample_env = (\<lambda>n s t x. Some (ustr ''alo''))"
  "redis_client sample_env = False"
  "disk_ok sample_env = (\<lambda>n. True)"
  by (simp_all add: sample_env_def)

lemma key_hello_en_es:
  "py_hash e = (\<lambda>s. int (length s)) \<Longrightarrow>
   translation_key e (ustr ''Hello'') (ustr ''en'') (ustr ''es'') = Inr (ustr ''trans:en:es:5'')"
  by (simp add: translation_key_def make_key_def str_int_def ustr_def)

lemma smart_translate_ai_path:
  assumes "time_time e w = (start_time, w1)"
    and "resolve_source e w1 text src = (src', w2)"
    and "get_cached_translation e w2 text src' tgt = Inr (None, w3)"
    and "translate_with_ai e w3 text src' tgt = (Some (ai_result, ai_method), w4)"
    and "ai_result \<noteq> []"
    and "time_time e w4 = (now, w5)"
    and "cache_translation e w5 text src' tgt
           \<lparr> translation = ai_result, source_lang = src', method_name = ai_method,
             time = now - start_time, confidence = 0.95, cached = False,
             offline = None, pivot = None, error = None \<rparr> 3600 = Inr w6"
  shows "smart_translate e w text src tgt =
           Inr (Some \<lparr> translation = ai_result, source_lang = src', method_name = ai_method,
                       time = now - start_time, confidence = 0.95, cached = False,
                       offline = None, pivot = None, error = None \<rparr>, w6)"
  using assms by (simp add: smart_translate_def resolve_source_def truthy_def Let_def)

lemma offline_direct_path:
  assumes "time_time e w = (start_time, w1)"
    and "resolve_source e w1 text src = (src', w2)"
    and "get_cached_translation e w2 text src' tgt = Inr (None, w3)"
    and "direct_attempt cfg e w3 text src' tgt = (Some (ai_result, ai_method), w4)"
    and "time_time e w4 = (now, w5)"
    and "cache_translation e w5 text src' tgt
           \<lparr> translation = ai_result, source_lang = src',
             method_name = ai_method @ ustr '' (Offline)'',
             time = now - start_time, confidence = 0.92, cached = False,
             offline = Some True, pivot = None, error = None \<rparr> 3600 = Inr w6"
  shows "offline_smart_translate cfg e w text src tgt =
           Inr (Some \<lparr> translation = ai_result, source_lang = src',
                       method_name = ai_method @ ustr '' (Offline)'',
                       time = now - start_time, confidence = 0.92, cached = False,
                       offline = Some True, pivot = None, error = None \<rparr>, w6)"
  using assms
  by (simp add: offline_smart_translate_def resolve_source_def direct_attempt_def Let_def)

lemma hello_stages:
  assumes sel: "py_hash e = (\<lambda>s. int (length s))" "clock e = real"
    "tokenizer_from_pretrained e = (\<lambda>n name. Some 1)" "model_from_pretrained e = (\<lambda>n name. Some 2)"
    "model_generate e (tick hello_w4 - 1) (Handle 1 2) (ustr ''Hello'') = Some out"
    "redis_client e = False" "disk_ok e 1"
  shows "time_time e empty_world = (0, hello_w1)"
    and "resolve_source e hello_w1 (ustr ''Hello'') (ustr ''en'') = (ustr ''en'', hello_w1)"
    and "get_cached_translation e hello_w1 (ustr ''Hello'') (ustr ''en'') (ustr ''es'') = Inr (None, hello_w3)"
    and "translate_with_ai e hello_w3 (ustr ''Hello'') (ustr ''en'') (ustr ''es'')
           = (Some (out, ai_method_name), hello_w4)"
    and "time_time e hello_w4 = (5, hello_w5)"
proof -
  show "time_time e empty_world = (0, hello_w1)"
    by (simp add: time_time_def hello_w1_def tick_def empty_world_def sel)
  show "resolve_source e hello_w1 (ustr ''Hello'') (ustr ''en'') = (ustr ''en'', hello_w1)"
    by (simp add: resolve_source_def ustr_def)
  show "get_cached_translation e hello_w1 (ustr ''Hello'') (ustr ''en'') (ustr ''es'') = Inr (None, hello_w3)"
    using sel(7)
    by (simp add: get_cached_translation_def key_hello_en_es sel disk_get_def tick_def
        hello_w3_def hello_w1_def log_call_def empty_world_def)
  have mc: "model_cache hello_w3 (ustr ''Helsinki-NLP/opus-mt-en-es'') = None"
    by (simp add: hello_w3_def hello_w1_def log_call_def empty_world_def)
  have nm: "ustr ''Helsinki-NLP/opus-mt-'' @ ustr ''en'' @ ustr ''-'' @ ustr ''es''
              = ustr ''Helsinki-NLP/opus-mt-en-es''"
    by (simp add: ustr_def)
  have tk: "tick hello_w4 - 1 = 4"
    by (simp add: tick_def hello_w4_def hello_w3_def hello_w1_def log_call_def empty_world_def)
  have tk3: "tick hello_w3 = 2"
    by (simp add: tick_def hello_w3_def hello_w1_def log_call_def empty_world_def)
  have len: "\<not> length (ustr ''Hello'') > 400" by (simp add: ustr_def)
  show "translate_with_ai e hello_w3 (ustr ''Hello'') (ustr ''en'') (ustr ''es'')
           = (Some (out, ai_method_name), hello_w4)"
    using hello_strip mc len sel(5) tk3
    by (simp add: translate_with_ai_def nm load_ai_model_def run_model_def sel(3,4) Let_def
        hello_w4_def tk tick_def log_call_def)
  show "time_time e hello_w4 = (5, hello_w5)"
    by (simp add: time_time_def tick_def sel hello_w5_def hello_w4_def hello_w3_def hello_w1_def
        log_call_def empty_world_def)
qed

lemma hello_write:
  assumes "py_hash e = (\<lambda>s. int (length s))" "redis_client e = False" "disk_ok e 6"
  shows "cache_translation e hello_w5 (ustr ''Hello'') (ustr ''en'') (ustr ''es'') res 3600
           = Inr (hello_w6 res)"
proof -
  have tk: "tick hello_w5 = 6"
    by (simp add: tick_def hello_w5_def hello_w4_def hello_w3_def hello_w1_def log_call_def
        empty_world_def)
  show ?thesis using assms
    by (simp add: cache_translation_def key_hello_en_es disk_set_def tk hello_w6_def)
qed

lemma hello_run:
  "smart_translate sample_env empty_world (ustr ''Hello'') (ustr ''en'') (ustr ''es'')
     = Inr (Some hello_result, hello_w6 hello_result)"
proof -
  have gen: "model_generate sample_env (tick hello_w4 - 1) (Handle 1 2) (ustr ''Hello'')
               = Some (ustr ''hola'')"
    by (simp add: sample_env_sel)
  note st = hello_stages [OF sample_env_sel(1,2,3,4) gen sample_env_sel(8), simplified sample_env_sel, simplified]
  have ne: "ustr ''hola'' \<noteq> []" by (simp add: ustr_def)
  have wr: "cache_translation sample_env hello_w5 (ustr ''Hello'') (ustr ''en'') (ustr ''es'')
        \<lparr> translation = ustr ''hola'', source_lang = ustr ''en'', method_name = ai_method_name,
          time = 5 - 0, confidence = 0.95, cached = False,
          offline = None, pivot = None, error = None \<rparr> 3600 = Inr (hello_w6 hello_result)"
    using hello_write [of sample_env hello_result]
    by (simp add: sample_env_sel hello_result_def)
  from smart_translate_ai_path [OF st(1) st(2) st(3) st(4) ne st(5) wr]
  show ?thesis by (simp add: hello_result_def)
qed

lemma hello_offline_run:
  "offline_smart_translate online_cfg sample_env empty_world (ustr ''Hello'') (ustr ''en'') (ustr ''es'')
     = Inr (Some hello_offline_result, hello_w6 hello_offline_result)"
proof -
  have gen: "model_generate sample_env (tick hello_w4 - 1) (Handle 1 2) (ustr ''Hello'')
               = Some (ustr ''hola'')"
    by (simp add: sample_env_sel)
  note st = hello_stages [OF sample_env_sel(1,2,3,4) gen sample_env_sel(8), simplified sample_env_sel, simplified]
  have ne: "ustr ''hola'' \<noteq> []" by (simp add: ustr_def)
  have da: "direct_attempt online_cfg sample_env hello_w3 (ustr ''Hello'') (ustr ''en'') (ustr ''es'')
              = (Some (ustr ''hola'', ai_method_name), hello_w4)"
    using st(4) ne by (simp add: direct_attempt_def online_cfg_def pairs_es_de truthy_def)
  have wr: "cache_translation sample_env hello_w5 (ustr ''Hello'') (ustr ''en'') (ustr ''es'')
        \<lparr> translation = ustr ''hola'', source_lang = ustr ''en'',
          method_name = ai_method_name @ ustr '' (Offline)'',
          time = 5 - 0, confidence = 0.92, cached = False,
          offline = Some True, pivot = None, error = None \<rparr> 3600
          = Inr (hello_w6 hello_offline_result)"
    using hello_write [of sample_env hello_offline_result]
    by (simp add: sample_env_sel hello_offline_result_def)
  from offline_direct_path [OF st(1) st(2) st(3) da st(5) wr]
  show ?thesis by (simp add: hello_offline_result_def)
qed

section \<open>Confidence by backend\<close>

text \<open>
  Claim C3, as amended. The confidence of a successful result that does not come from the
  cache is a constant fixed by the path that produced it. In \<open>AITranslator.smart_translate\<close>
  it is 0.95 for the local model, 0.90 for Google and 0.80 for MyMemory. In
  \<open>OfflineTranslator.smart_translate\<close> it is 0.92 for the local model (0.85 through the
  English pivot and 0.1 for the offline fallback), 0.90 for Google and 0.80 for MyMemory.
  The claim as stated gives 0.95 for the local model in both dispatchers; the example after
  the theorem is a result of the offline dispatcher from the local model with 0.92.
\<close>

theorem confidence_by_backend:
  "(smart_translate e w text src tgt = Inr (Some r, w') \<longrightarrow> \<not> cached r \<longrightarrow>
      (method_name r = ai_method_name \<and> confidence r = 0.95)
    \<or> (method_name r = ustr ''Google Translate'' \<and> confidence r = 0.90)
    \<or> (method_name r = ustr ''MyMemory'' \<and> confidence r = 0.80))
 \<and> (offline_smart_translate cfg e w text src tgt = Inr (Some r', w'') \<longrightarrow> \<not> cached r' \<longrightarrow>
      (method_name r' = ai_method_name @ ustr '' (Offline)'' \<and> confidence r' = 0.92)
    \<or> (method_name r' = pivot_method_name \<and> confidence r' = 0.85)
    \<or> (method_name r' = ustr ''Offline Fallback'' \<and> confidence r' = 0.1)
    \<or> (method_name r' = ustr ''Google Translate'' @ ustr '' (Online)'' \<and> confidence r' = 0.90)
    \<or> (method_name r' = ustr ''MyMemory'' @ ustr '' (Online)'' \<and> confidence r' = 0.80))"
proof (intro conjI impI)
  assume "smart_translate e w text src tgt = Inr (Some r, w')" and "\<not> cached r"
  then show "(method_name r = ai_method_name \<and> confidence r = 0.95)
    \<or> (method_name r = ustr ''Google Translate'' \<and> confidence r = 0.90)
    \<or> (method_name r = ustr ''MyMemory'' \<and> confidence r = 0.80)"
    by (rule smart_translate_shapes)
next
  assume "offline_smart_translate cfg e w text src tgt = Inr (Some r', w'')" and "\<not> cached r'"
  from offline_smart_translate_shapes [OF this]
  show "(method_name r' = ai_method_name @ ustr '' (Offline)'' \<and> confidence r' = 0.92)
    \<or> (method_name r' = pivot_method_name \<and> confidence r' = 0.85)
    \<or> (method_name r' = ustr ''Offline Fallback'' \<and> confidence r' = 0.1)
    \<or> (method_name r' = ustr ''Google Translate'' @ ustr '' (Online)'' \<and> confidence r' = 0.90)
    \<or> (method_name r' = ustr ''MyMemory'' @ ustr '' (Online)'' \<and> confidence r' = 0.80)"
    by blast
qed

theorem confidence_by_backend_witness:
  "outcome (smart_translate sample_env empty_world (ustr ''Hello'') (ustr ''en'') (ustr ''es''))
     = Inr (Some hello_result)
   \<and> \<not> cached hello_result \<and> method_name hello_result = ai_method_name
   \<and> confidence hello_result = 0.95
   \<and> outcome (offline_smart_translate online_cfg sample_env empty_world
                (ustr ''Hello'') (ustr ''en'') (ustr ''es''))
     = Inr (Some hello_offline_result)
   \<and> \<not> cached hello_offline_result
   \<and> method_name hello_offline_result = ai_method_name @ ustr '' (Offline)''
   \<and> confidence hello_offline_result = 0.92"
proof -
  have c1: "\<not> cached hello_result" by (simp add: hello_result_def)
  have c2: "\<not> cached hello_offline_result" by (simp add: hello_offline_result_def)
  from confidence_by_backend [of sample_env empty_world "ustr ''Hello''" "ustr ''en''" "ustr ''es''"
      hello_result "hello_w6 hello_result" online_cfg hello_offline_result
      "hello_w6 hello_offline_result"]
    hello_run hello_offline_run c1 c2
  show ?thesis
    by (simp add: outcome_def hello_result_def hello_offline_result_def)
qed

theorem confidence_by_backend_counterexample:
  "map_sum id (map_option method_name)
     (outcome (offline_smart_translate online_cfg sample_env empty_world
                 (ustr ''Hello'') (ustr ''en'') (ustr ''es'')))
     = Inr (Some (ustr ''AI Model (Marian) (Offline)''))
   \<and> map_sum id (map_option cached)
     (outcome (offline_smart_translate online_cfg sample_env empty_world
                 (ustr ''Hello'') (ustr ''en'') (ustr ''es'')))
     = Inr (Some False)
   \<and> map_sum id (map_option confidence)
     (outcome (offline_smart_translate online_cfg sample_env empty_world
                 (ustr ''Hello'') (ustr ''en'') (ustr ''es'')))
     = Inr (Some 0.92)
   \<and> (0.92 :: real) \<noteq> 0.95"
  unfolding hello_offline_run outcome_def
  by (simp add: hello_offline_result_def ai_method_name_def ustr_def)

section \<open>The English pivot\<close>

lemma pivot_env_sel:
  "py_hash pivot_env = (\<lambda>s. int (length s))"
  "clock pivot_env = real"
  "tokenizer_from_pretrained pivot_env = (\<lambda>n name. Some 1)"
  "model_from_pretrained pivot_env = (\<lambda>n name. Some 2)"
  "model_generate pivot_env =
     (\<lambda>n h s. if s = ustr ''Hola'' then Some (ustr ''Hello'') else Some (ustr ''Hallo''))"
  "google pivot_env = (\<lambda>n s t x. Some (ustr ''ola''))"
  "redis_client pivot_env = False"
  "disk_ok pivot_env = (\<lambda>n. True)"
  by (simp_all add: pivot_env_def sample_env_def)

lemma key_hola_es_de:
  "py_hash e = (\<lambda>s. int (length s)) \<Longrightarrow>
   translation_key e (ustr ''Hola'') (ustr ''es'') (ustr ''de'') = Inr (ustr ''trans:es:de:4'')"
  by (simp add: translation_key_def make_key_def str_int_def ustr_def)

lemma offline_google_path:
  assumes "\<not> offline_mode cfg" and "use_google_translate cfg"
    and "time_time e w = (start_time, w1)"
    and "resolve_source e w1 text src = (src', w2)"
    and "get_cached_translation e w2 text src' tgt = Inr (None, w3)"
    and "direct_attempt cfg e w3 text src' tgt = (None, w4)"
    and "translate_with_google e w4 text src' tgt = (Some (google_result, detected_lang, google_method), w5)"
    and "google_result \<noteq> []"
    and "time_time e w5 = (now, w6)"
    and "cache_translation e w6 text src' tgt
           \<lparr> translation = google_result, source_lang = detected_lang,
             method_name = google_method @ ustr '' (Online)'',
             time = now - start_time, confidence = 0.90, cached = False,
             offline = Some False, pivot = None, error = None \<rparr> 3600 = Inr w7"
  shows "offline_smart_translate cfg e w text src tgt =
           Inr (Some \<lparr> translation = google_result, source_lang = detected_lang,
                       method_name = google_method @ ustr '' (Online)'',
                       time = now - start_time, confidence = 0.90, cached = False,
                       offline = Some False, pivot = None, error = None \<rparr>, w7)"
  using assms
  by (simp add: offline_smart_translate_def resolve_source_def direct_attempt_def truthy_def Let_def)

text \<open>
  Claim C5. In offline-forced mode, for a pair that is not in the table of local models,
  with neither language English and both legs through English in the table: when the
  cache probe has missed and both runs of the local model succeed, the dispatcher returns
  a result with confidence 0.85 and the pivot marker set, whose translation is the output
  of the second run, made on the English text of the first. And for the same request a
  dispatcher that is not forced offline never returns a fresh result with a pivot marker.
\<close>

theorem pivot_through_english:
  assumes off: "offline_mode cfg"
    and a: "time_time e w = (start_time, w1)"
    and b: "resolve_source e w1 text src = (src', w2)"
    and c: "get_cached_translation e w2 text src' tgt = Inr (None, w3)"
    and nd: "\<not> is_offline_available src' tgt"
    and ne: "src' \<noteq> ustr ''en''" "tgt \<noteq> ustr ''en''"
    and legs: "is_offline_available src' (ustr ''en'')" "is_offline_available (ustr ''en'') tgt"
    and t1: "time_time e w3 = (pivot_start, w4)"
    and first: "translate_with_ai e w4 text src' (ustr ''en'') = (Some (english_result, method1), w5)"
    and e1: "english_result \<noteq> []"
    and second: "translate_with_ai e w5 english_result (ustr ''en'') tgt
                   = (Some (final_result, method2), w6)"
    and e2: "final_result \<noteq> []"
    and t2: "time_time e w6 = (now, w7)"
  shows "(\<exists>w'. offline_smart_translate cfg e w text src tgt =
           Inr (Some \<lparr> translation = final_result, source_lang = src',
                       method_name = pivot_method_name, time = now - pivot_start,
                       confidence = 0.85, cached = False, offline = Some True,
                       pivot = Some True, error = None \<rparr>, w'))
       \<and> (\<forall>cfg' r wr. \<not> offline_mode cfg' \<longrightarrow>
             offline_smart_translate cfg' e w text src tgt = Inr (Some r, wr) \<longrightarrow>
             \<not> cached r \<longrightarrow> pivot r = None)"
proof (intro conjI allI impI)
  show "\<exists>w'. offline_smart_translate cfg e w text src tgt =
           Inr (Some \<lparr> translation = final_result, source_lang = src',
                       method_name = pivot_method_name, time = now - pivot_start,
                       confidence = 0.85, cached = False, offline = Some True,
                       pivot = Some True, error = None \<rparr>, w')"
    using assms by (rule pivot_path)
next
  fix cfg' r wr
  assume "\<not> offline_mode cfg'"
    and "offline_smart_translate cfg' e w text src tgt = Inr (Some r, wr)" and "\<not> cached r"
  with offline_smart_translate_shapes [of cfg' e w "text" src tgt r wr]
  show "pivot r = None" by blast
qed


lemma hola_strip: "strip (ustr ''Hola'') \<noteq> []" "strip (ustr ''Hello'') \<noteq> []"
  by (simp_all add: strip_def lstrip_def rstrip_def ustr_def isspace_def)

theorem pivot_through_english_witness:
  "offline_mode offline_cfg
   \<and> outcome (offline_smart_translate offline_cfg pivot_env empty_world
                (ustr ''Hola'') (ustr ''es'') (ustr ''de''))
     = Inr (Some \<lparr> translation = ustr ''Hallo'', source_lang = ustr ''es'',
                    method_name = pivot_method_name, time = 7, confidence = 0.85,
                    cached = False, offline = Some True, pivot = Some True, error = None \<rparr>)
   \<and> \<not> offline_mode online_cfg
   \<and> outcome (offline_smart_translate online_cfg pivot_env empty_world
                (ustr ''Hola'') (ustr ''es'') (ustr ''de''))
     = Inr (Some \<lparr> translation = ustr ''ola'', source_lang = ustr ''es'',
                    method_name = ustr ''Google Translate (Online)'', time = 3,
                    confidence = 0.90, cached = False, offline = Some False, pivot = None,
                    error = None \<rparr>)"
proof -
  let ?e = pivot_env and ?t = "ustr ''Hola''" and ?s = "ustr ''es''" and ?g = "ustr ''de''"
  let ?en = "ustr ''en''"
  let ?n1 = "ustr ''Helsinki-NLP/opus-mt-es-en''" and ?n2 = "ustr ''Helsinki-NLP/opus-mt-en-de''"
  let ?k = "ustr ''trans:es:de:4''"
  define w1 where "w1 = log_call Time_time empty_world"
  define w3 where "w3 = log_call (Disk_get ?k) w1"
  define w4 where "w4 = log_call Time_time w3"
  define w5 where "w5 = log_call (Model_generate (Handle 1 2) ?t)
     ((log_call (Model_from_pretrained ?n1) (log_call (Tokenizer_from_pretrained ?n1) w4))
        \<lparr>model_cache := (model_cache w4)(?n1 \<mapsto> Handle 1 2)\<rparr>)"
  define w6 where "w6 = log_call (Model_generate (Handle 1 2) (ustr ''Hello''))
     ((log_call (Model_from_pretrained ?n2) (log_call (Tokenizer_from_pretrained ?n2) w5))
        \<lparr>model_cache := (model_cache w5)(?n2 \<mapsto> Handle 1 2)\<rparr>)"
  define w7 where "w7 = log_call Time_time w6"
  note wdefs = w7_def w6_def w5_def w4_def w3_def w1_def log_call_def empty_world_def
  have off: "offline_mode offline_cfg" and on: "\<not> offline_mode online_cfg"
    and ug: "use_google_translate online_cfg"
    by (simp_all add: offline_cfg_def online_cfg_def)
  have a1: "time_time ?e empty_world = (0, w1)"
    by (simp add: time_time_def w1_def tick_def empty_world_def pivot_env_sel)
  have a2: "resolve_source ?e w1 ?t ?s = (?s, w1)"
    by (simp add: resolve_source_def ustr_def)
  have a3: "get_cached_translation ?e w1 ?t ?s ?g = Inr (None, w3)"
    by (simp add: get_cached_translation_def key_hola_es_de pivot_env_sel disk_get_def
        w3_def w1_def log_call_def empty_world_def)
  have ne: "?s \<noteq> ?en" "?g \<noteq> ?en" by (simp_all add: ustr_def)
  have t1: "time_time ?e w3 = (2, w4)"
    by (simp add: time_time_def tick_def pivot_env_sel w4_def w3_def w1_def log_call_def
        empty_world_def)
  have nm1: "ustr ''Helsinki-NLP/opus-mt-'' @ ?s @ ustr ''-'' @ ?en = ?n1"
    and nm2: "ustr ''Helsinki-NLP/opus-mt-'' @ ?en @ ustr ''-'' @ ?g = ?n2"
    by (simp_all add: ustr_def)
  have mc1: "model_cache w4 ?n1 = None"
    by (simp add: w4_def w3_def w1_def log_call_def empty_world_def)
  have mc2: "model_cache w5 ?n2 = None"
    by (simp add: w5_def w4_def w3_def w1_def log_call_def empty_world_def ustr_def)
  have len: "\<not> length ?t > 400" "\<not> length (ustr ''Hello'') > 400" by (simp_all add: ustr_def)
  have h: "ustr ''Hello'' \<noteq> ustr ''Hola''" by (simp add: ustr_def)
  have first: "translate_with_ai ?e w4 ?t ?s ?en = (Some (ustr ''Hello'', ai_method_name), w5)"
    using hola_strip(1) mc1 len(1)
    by (simp add: translate_with_ai_def nm1 load_ai_model_def run_model_def pivot_env_sel Let_def
        w5_def log_call_def)
  have second: "translate_with_ai ?e w5 (ustr ''Hello'') ?en ?g
                  = (Some (ustr ''Hallo'', ai_method_name), w6)"
    using hola_strip(2) mc2 len(2) h
    by (simp add: translate_with_ai_def nm2 load_ai_model_def run_model_def pivot_env_sel Let_def
        w6_def log_call_def)
  have e1: "ustr ''Hello'' \<noteq> []" and e2: "ustr ''Hallo'' \<noteq> []" by (simp_all add: ustr_def)
  have t2: "time_time ?e w6 = (9, w7)"
    by (simp add: time_time_def tick_def pivot_env_sel wdefs)
  note piv = pivot_through_english [OF off a1 a2 a3 pairs_es_de(1) ne pairs_es_de(2,3) t1 first e1
      second e2 t2]
  from piv [THEN conjunct1]
  have r1: "outcome (offline_smart_translate offline_cfg ?e empty_world ?t ?s ?g)
     = Inr (Some \<lparr> translation = ustr ''Hallo'', source_lang = ?s,
                    method_name = pivot_method_name, time = 7, confidence = 0.85,
                    cached = False, offline = Some True, pivot = Some True, error = None \<rparr>)"
    by (auto simp: outcome_def)
  define g5 where "g5 = log_call (Google_translate ?s ?g ?t) w3"
  define g6 where "g6 = log_call Time_time g5"
  let ?res = "\<lparr> translation = ustr ''ola'', source_lang = ?s,
                 method_name = ustr ''Google Translate'' @ ustr '' (Online)'', time = 3 - 0,
                 confidence = 0.90, cached = False, offline = Some False, pivot = None,
                 error = None \<rparr>"
  define g7 where "g7 = (log_call (Disk_set ?k ?res 3600) g6)
                          \<lparr>disk_store := (disk_store g6)(?k \<mapsto> ?res)\<rparr>"
  note gdefs = g7_def g6_def g5_def w3_def w1_def log_call_def empty_world_def
  have d: "direct_attempt online_cfg ?e w3 ?t ?s ?g = (None, w3)"
    by (simp add: direct_attempt_def pairs_es_de)
  have gg: "translate_with_google ?e w3 ?t ?s ?g
              = (Some (ustr ''ola'', ?s, ustr ''Google Translate''), g5)"
    by (simp add: translate_with_google_def google_call_def pivot_env_sel Let_def g5_def
        eval_nat_numeral ustr_def)
  have gne: "ustr ''ola'' \<noteq> []" by (simp add: ustr_def)
  have gt: "time_time ?e g5 = (3, g6)"
    by (simp add: time_time_def tick_def pivot_env_sel gdefs)
  have tk: "tick g6 = 4" by (simp add: tick_def gdefs)
  have gw: "cache_translation ?e g6 ?t ?s ?g ?res 3600 = Inr g7"
    by (simp add: cache_translation_def key_hola_es_de pivot_env_sel disk_set_def tk g7_def)
  note run2 = offline_google_path [OF on ug a1 a2 a3 d gg gne gt gw]
  have fresh: "\<not> cached ?res" by simp
  from piv [THEN conjunct2, rule_format, OF on run2 fresh] run2
  have r2: "outcome (offline_smart_translate online_cfg ?e empty_world ?t ?s ?g)
     = Inr (Some \<lparr> translation = ustr ''ola'', source_lang = ?s,
                    method_name = ustr ''Google Translate (Online)'', time = 3,
                    confidence = 0.90, cached = False, offline = Some False, pivot = None,
                    error = None \<rparr>)"
    by (simp add: outcome_def ustr_def)
  from off on r1 r2 show ?thesis by simp
qed

section \<open>A second call\<close>

lemma fresh_written:
  assumes run: "smart_translate e w text src tgt = Inr (Some r, w')" and fresh: "\<not> cached r"
    and src: "src \<noteq> ustr ''auto''"
  shows "\<exists>wx. cache_translation e wx text src tgt r 3600 = Inr w'"
proof -
  obtain t0 w1 where a: "time_time e w = (t0, w1)" by force
  note defs = smart_translate_def
  show ?thesis
  proof (cases "get_cached_translation e w1 text src tgt")
    case (Inl err)
    with a src run show ?thesis by (simp add: defs)
  next
    case (Inr p)
    obtain c w3 where p: "p = (c, w3)" by force
    show ?thesis
    proof (cases c)
      case (Some cr)
      obtain t1 w4 where t: "time_time e w3 = (t1, w4)" by force
      from a src Inr p Some t run have "r = cr\<lparr>time := t1 - t0, cached := True\<rparr>"
        by (simp add: defs)
      with fresh show ?thesis by simp
    next
      case None
      obtain ai w4 where ai: "translate_with_ai e w3 text src tgt = (ai, w4)" by force
      show ?thesis
      proof (cases "truthy ai")
        case (Some am)
        obtain ai_result ai_method where am: "am = (ai_result, ai_method)" by force
        obtain t1 w5 where t: "time_time e w4 = (t1, w5)" by force
        from a src Inr p None ai Some am t run show ?thesis
          by (simp add: defs Let_def split: sum.splits) blast
      next
        case an: None
        obtain gg w5 where gg: "translate_with_google e w4 text src tgt = (gg, w5)" by force
        show ?thesis
        proof (cases "truthy gg")
          case (Some gm)
          obtain google_result detected_lang google_method
            where gm: "gm = (google_result, detected_lang, google_method)"
            by (cases gm) simp
          obtain t1 w6 where t: "time_time e w5 = (t1, w6)" by force
          from a src Inr p None ai an gg Some gm t run show ?thesis
            by (simp add: defs Let_def split: sum.splits) blast
        next
          case gn: None
          obtain mm w6 where mm: "translate_with_mymemory e w5 text src tgt = (mm, w6)" by force
          show ?thesis
          proof (cases "truthy mm")
            case (Some mr)
            obtain mymemory_result mymemory_method where mr: "mr = (mymemory_result, mymemory_method)"
              by force
            obtain t1 w7 where t: "time_time e w6 = (t1, w7)" by force
            from a src Inr p None ai an gg gn mm Some mr t run show ?thesis
              by (simp add: defs Let_def split: sum.splits) blast
          next
            case mn: None
            from a src Inr p None ai an gg gn mm mn run show ?thesis by (simp add: defs)
          qed
        qed
      qed
    qed
  qed
qed

lemma cache_translation_stored:
  assumes "\<forall>n. redis_ok e n" and "\<forall>n. disk_ok e n"
    and "cache_translation e wx text src tgt r ttl = Inr w'"
    and "translation_key e text src tgt = Inr k"
  shows "first_tier_holds e w' k r"
  using assms
  by (auto simp: cache_translation_def redis_setex_def disk_set_def first_tier_holds_def log_call_def)

lemma get_cached_hit:
  assumes "\<forall>n. redis_ok e n" and "\<forall>n. disk_ok e n"
    and "translation_key e text src tgt = Inr k"
    and "first_tier_holds e w k r"
  shows "\<exists>w'. get_cached_translation e w text src tgt = Inr (Some r, w') \<and> tick w' = Suc (tick w)"
  using assms
  by (auto simp: get_cached_translation_def redis_get_def disk_get_def first_tier_holds_def
      log_call_def tick_def)

lemma first_tier_holds_log: "first_tier_holds e (log_call c w) k r = first_tier_holds e w k r"
  by (simp add: first_tier_holds_def log_call_def)

text \<open>
  Claim C2, as amended. For a source language other than \<open>auto\<close>: if a first call of
  \<open>smart_translate\<close> returns a fresh result and no operation on a cache tier fails (so the
  write went through and the read of the second call goes through, the entry not having
  expired), then a second call with the same arguments, made in the state the first one
  left, returns the stored result with \<open>cached\<close> set and \<open>time\<close> recomputed as the time
  elapsed in the second dispatch; every other field, the translation among them, is that
  of the first result. The claim as stated asks only for the write to have succeeded; the
  example after the theorem is a second call whose cache read fails and which therefore
  translates again and returns a result that is not marked as cached.
\<close>

theorem second_call_cached:
  assumes src: "src \<noteq> ustr ''auto''"
    and healthy: "\<forall>n. redis_ok e n" "\<forall>n. disk_ok e n"
    and first: "smart_translate e w text src tgt = Inr (Some r1, w1)"
    and fresh: "\<not> cached r1"
  shows "\<exists>w2. smart_translate e w1 text src tgt =
           Inr (Some (r1\<lparr>time := clock e (tick w1 + 2) - clock e (tick w1), cached := True\<rparr>), w2)"
proof -
  from fresh_written [OF first fresh src]
  obtain wx where wr: "cache_translation e wx text src tgt r1 3600 = Inr w1" by blast
  then obtain k where k: "translation_key e text src tgt = Inr k"
    by (cases "translation_key e text src tgt") (simp_all add: cache_translation_def)
  from cache_translation_stored [OF healthy wr k] have "first_tier_holds e w1 k r1" .
  then have held: "first_tier_holds e (log_call Time_time w1) k r1"
    by (simp add: first_tier_holds_log)
  from get_cached_hit [OF healthy k held]
  obtain w' where hit: "get_cached_translation e (log_call Time_time w1) text src tgt = Inr (Some r1, w')"
    and tk: "tick w' = Suc (tick (log_call Time_time w1))" by blast
  have tk': "tick w' = tick w1 + 2" using tk by (simp add: tick_def log_call_def)
  have "smart_translate e w1 text src tgt =
          Inr (Some (r1\<lparr>time := clock e (tick w1 + 2) - clock e (tick w1), cached := True\<rparr>),
               log_call Time_time w')"
    using src hit tk' by (simp add: smart_translate_def time_time_def)
  then show ?thesis by blast
qed

lemma flaky_env_sel:
  "py_hash flaky_env = (\<lambda>s. int (length s))"
  "clock flaky_env = real"
  "tokenizer_from_pretrained flaky_env = (\<lambda>n name. Some 1)"
  "model_from_pretrained flaky_env = (\<lambda>n name. Some 2)"
  "model_generate flaky_env = (\<lambda>n h s. Some (ustr ''hola''))"
  "redis_client flaky_env = False"
  "disk_ok flaky_env = (\<lambda>n. n \<noteq> 8)"
  by (simp_all add: flaky_env_def sample_env_def)

lemma hello_w6_facts:
  "tick (hello_w6 r) = 7"
  "disk_store (hello_w6 r) (ustr ''trans:en:es:5'') = Some r"
  "model_cache (hello_w6 r) (ustr ''Helsinki-NLP/opus-mt-en-es'') = Some (Handle 1 2)"
  by (simp_all add: tick_def hello_w6_def hello_w5_def hello_w4_def hello_w3_def hello_w1_def
      log_call_def empty_world_def)

theorem second_call_cached_witness:
  "ustr ''en'' \<noteq> ustr ''auto'' \<and> (\<forall>n. redis_ok sample_env n) \<and> (\<forall>n. disk_ok sample_env n)
   \<and> smart_translate sample_env empty_world (ustr ''Hello'') (ustr ''en'') (ustr ''es'')
       = Inr (Some hello_result, hello_w6 hello_result)
   \<and> \<not> cached hello_result
   \<and> outcome (smart_translate sample_env (hello_w6 hello_result)
                (ustr ''Hello'') (ustr ''en'') (ustr ''es''))
       = Inr (Some (hello_result\<lparr>time := 2, cached := True\<rparr>))"
proof -
  have src: "ustr ''en'' \<noteq> ustr ''auto''" by (simp add: ustr_def)
  have h1: "\<forall>n. redis_ok sample_env n" and h2: "\<forall>n. disk_ok sample_env n"
    by (simp_all add: sample_env_def)
  have fresh: "\<not> cached hello_result" by (simp add: hello_result_def)
  from second_call_cached [OF src h1 h2 hello_run fresh]
  have "outcome (smart_translate sample_env (hello_w6 hello_result)
                (ustr ''Hello'') (ustr ''en'') (ustr ''es''))
       = Inr (Some (hello_result\<lparr>time := 2, cached := True\<rparr>))"
    by (auto simp: outcome_def hello_w6_facts sample_env_sel)
  with src h1 h2 hello_run fresh show ?thesis by simp
qed

theorem second_call_cached_counterexample:
  "ustr ''en'' \<noteq> ustr ''auto''
   \<and> smart_translate flaky_env empty_world (ustr ''Hello'') (ustr ''en'') (ustr ''es'')
       = Inr (Some hello_result, hello_w6 hello_result)
   \<and> disk_ok flaky_env 6
   \<and> disk_store (hello_w6 hello_result) (ustr ''trans:en:es:5'') = Some hello_result
   \<and> outcome (smart_translate flaky_env (hello_w6 hello_result)
                (ustr ''Hello'') (ustr ''en'') (ustr ''es''))
       = Inr (Some (hello_result\<lparr>time := 3\<rparr>))
   \<and> cached (hello_result\<lparr>time := 3\<rparr>) = False"
proof -
  let ?e = flaky_env and ?t = "ustr ''Hello''" and ?s = "ustr ''en''" and ?g = "ustr ''es''"
  let ?k = "ustr ''trans:en:es:5''" and ?W = "hello_w6 hello_result"
  have src: "?s \<noteq> ustr ''auto''" by (simp add: ustr_def)
  have ne: "ustr ''hola'' \<noteq> []" by (simp add: ustr_def)
  have gen: "model_generate ?e (tick hello_w4 - 1) (Handle 1 2) ?t = Some (ustr ''hola'')"
    by (simp add: flaky_env_sel)
  have d1: "disk_ok ?e 1" and d6: "disk_ok ?e 6" by (simp_all add: flaky_env_sel)
  note st = hello_stages [OF flaky_env_sel(1,2,3,4) gen flaky_env_sel(6) d1]
  have wr: "cache_translation ?e hello_w5 ?t ?s ?g
        \<lparr> translation = ustr ''hola'', source_lang = ?s, method_name = ai_method_name,
          time = 5 - 0, confidence = 0.95, cached = False,
          offline = None, pivot = None, error = None \<rparr> 3600 = Inr ?W"
    using hello_write [OF flaky_env_sel(1) flaky_env_sel(6) d6, of hello_result]
    by (simp add: hello_result_def)
  from smart_translate_ai_path [OF st(1) st(2) st(3) st(4) ne st(5) wr]
  have run1: "smart_translate ?e empty_world ?t ?s ?g = Inr (Some hello_result, ?W)"
    by (simp add: hello_result_def)
  define v1 where "v1 = log_call Time_time ?W"
  define v3 where "v3 = log_call (Disk_get ?k) v1"
  define v4 where "v4 = log_call (Model_generate (Handle 1 2) ?t) v3"
  define v5 where "v5 = log_call Time_time v4"
  let ?res = "\<lparr> translation = ustr ''hola'', source_lang = ?s, method_name = ai_method_name,
                 time = 10 - 7, confidence = 0.95, cached = False,
                 offline = None, pivot = None, error = None \<rparr>"
  define v6 where "v6 = (log_call (Disk_set ?k ?res 3600) v5)
                          \<lparr>disk_store := (disk_store v5)(?k \<mapsto> ?res)\<rparr>"
  have tks: "tick v1 = 8" "tick v3 = 9" "tick v4 = 10" "tick v5 = 11"
    using hello_w6_facts(1) [of hello_result]
    by (simp_all add: tick_def v1_def v3_def v4_def v5_def log_call_def)
  have b1: "time_time ?e ?W = (7, v1)"
    by (simp add: time_time_def hello_w6_facts flaky_env_sel v1_def)
  have b2: "resolve_source ?e v1 ?t ?s = (?s, v1)"
    using src by (simp add: resolve_source_def)
  have b3: "get_cached_translation ?e v1 ?t ?s ?g = Inr (None, v3)"
    by (simp add: get_cached_translation_def key_hello_en_es flaky_env_sel disk_get_def tks v3_def)
  have mc: "model_cache v3 (ustr ''Helsinki-NLP/opus-mt-en-es'') = Some (Handle 1 2)"
    using hello_w6_facts(3) [of hello_result] by (simp add: v3_def v1_def log_call_def)
  have nm: "ustr ''Helsinki-NLP/opus-mt-'' @ ?s @ ustr ''-'' @ ?g = ustr ''Helsinki-NLP/opus-mt-en-es''"
    by (simp add: ustr_def)
  have len: "\<not> length ?t > 400" by (simp add: ustr_def)
  have b4: "translate_with_ai ?e v3 ?t ?s ?g = (Some (ustr ''hola'', ai_method_name), v4)"
    using hello_strip mc len
    by (simp add: translate_with_ai_def nm load_ai_model_def run_model_def flaky_env_sel Let_def
        v4_def)
  have b5: "time_time ?e v4 = (10, v5)"
    by (simp add: time_time_def tks flaky_env_sel v5_def)
  have b6: "cache_translation ?e v5 ?t ?s ?g ?res 3600 = Inr v6"
    by (simp add: cache_translation_def key_hello_en_es flaky_env_sel disk_set_def tks v6_def)
  from smart_translate_ai_path [OF b1 b2 b3 b4 ne b5 b6]
  have run2: "outcome (smart_translate ?e ?W ?t ?s ?g) = Inr (Some (hello_result\<lparr>time := 3\<rparr>))"
    by (simp add: outcome_def hello_result_def)
  from src run1 d6 hello_w6_facts(2) [of hello_result] run2 show ?thesis
    by (simp add: hello_result_def)
qed

section \<open>The cache key\<close>

lemma translation_key_formula:
  "translation_key e text src tgt =
     (let key_str = src @ ustr '':'' @ tgt @ ustr '':'' @ str_int (py_hash e text)
      in if length key_str \<le> 200 then Inr (ustr ''trans:'' @ key_str)
         else if encodable key_str then Inr (ustr ''trans:'' @ md5_hexdigest e key_str)
         else Inl UnicodeEncodeError)"
  by (simp add: translation_key_def make_key_def Let_def ustr_def)

lemma cache_translation_calls:
  assumes "translation_key e text src tgt = Inr k"
    and "cache_translation e w text src tgt r ttl = Inr w'"
  shows "list_all (\<lambda>c. key_of_call c = Some k) (new_calls w w')"
  using assms
  by (auto simp: cache_translation_def redis_setex_def disk_set_def new_calls_def tick_def
      log_call_def split: if_splits)

lemma get_cached_translation_calls:
  assumes "translation_key e text src tgt = Inr k"
    and "get_cached_translation e w text src tgt = Inr (x, w')"
  shows "list_all (\<lambda>c. key_of_call c = Some k) (new_calls w w')"
  using assms
  by (auto simp: get_cached_translation_def redis_get_def redis_setex_def disk_get_def
      new_calls_def tick_def log_call_def split: if_splits option.splits)

text \<open>
  Claim C4, as amended. For every read and write of the translation cache the key is
  \<open>trans:\<close> followed by \<open>K\<close>, where \<open>K\<close> is the source language, the target language
  and the decimal form of the built-in hash of the text, joined by colons, when \<open>K\<close> has at
  most 200 characters, and the MD5 digest of \<open>K\<close> otherwise. The text itself is not part
  of the key: two texts with the same hash have the same key. The test on the length
  leaves the prefix out, and the prefix stays in front of the digest. The claim as stated
  puts the text in the key; the example after the theorem is a short text whose key is not
  the concatenation with the text.
\<close>

theorem translation_key_shape:
  "translation_key e text src tgt =
     (let key_str = src @ ustr '':'' @ tgt @ ustr '':'' @ str_int (py_hash e text)
      in if length key_str \<le> 200 then Inr (ustr ''trans:'' @ key_str)
         else if encodable key_str then Inr (ustr ''trans:'' @ md5_hexdigest e key_str)
         else Inl UnicodeEncodeError)
   \<and> (py_hash e text' = py_hash e text \<longrightarrow>
        translation_key e text' src tgt = translation_key e text src tgt)
   \<and> (translation_key e text src tgt = Inr k \<longrightarrow>
        cache_translation e w text src tgt r ttl = Inr w' \<longrightarrow>
        list_all (\<lambda>c. key_of_call c = Some k) (new_calls w w'))
   \<and> (translation_key e text src tgt = Inr k \<longrightarrow>
        get_cached_translation e v text src tgt = Inr (x, v') \<longrightarrow>
        list_all (\<lambda>c. key_of_call c = Some k) (new_calls v v'))"
proof (intro conjI impI)
  show "translation_key e text src tgt =
     (let key_str = src @ ustr '':'' @ tgt @ ustr '':'' @ str_int (py_hash e text)
      in if length key_str \<le> 200 then Inr (ustr ''trans:'' @ key_str)
         else if encodable key_str then Inr (ustr ''trans:'' @ md5_hexdigest e key_str)
         else Inl UnicodeEncodeError)"
    by (rule translation_key_formula)
next
  assume "py_hash e text' = py_hash e text"
  then show "translation_key e text' src tgt = translation_key e text src tgt"
    by (simp add: translation_key_def)
next
  assume "translation_key e text src tgt = Inr k"
    and "cache_translation e w text src tgt r ttl = Inr w'"
  then show "list_all (\<lambda>c. key_of_call c = Some k) (new_calls w w')"
    by (rule cache_translation_calls)
next
  assume "translation_key e text src tgt = Inr k"
    and "get_cached_translation e v text src tgt = Inr (x, v')"
  then show "list_all (\<lambda>c. key_of_call c = Some k) (new_calls v v')"
    by (rule get_cached_translation_calls)
qed

theorem translation_key_shape_witness:
  "translation_key sample_env (ustr ''Hello'') (ustr ''en'') (ustr ''es'')
     = Inr (ustr ''trans:en:es:5'')
   \<and> py_hash sample_env (ustr ''World'') = py_hash sample_env (ustr ''Hello'')
   \<and> translation_key sample_env (ustr ''World'') (ustr ''en'') (ustr ''es'')
     = Inr (ustr ''trans:en:es:5'')
   \<and> new_calls hello_w5 (hello_w6 hello_result)
     = [Disk_set (ustr ''trans:en:es:5'') hello_result 3600]
   \<and> new_calls hello_w1 hello_w3 = [Disk_get (ustr ''trans:en:es:5'')]"
proof -
  let ?e = sample_env and ?t = "ustr ''Hello''" and ?s = "ustr ''en''" and ?g = "ustr ''es''"
  note sh = translation_key_shape [of ?e ?t ?s ?g "ustr ''World''" "ustr ''trans:en:es:5''"
      hello_w5 hello_result 3600 "hello_w6 hello_result" hello_w1 None hello_w3]
  have k: "translation_key ?e ?t ?s ?g = Inr (ustr ''trans:en:es:5'')"
    using sh [THEN conjunct1] by (simp add: sample_env_sel str_int_def ustr_def)
  have hh: "py_hash ?e (ustr ''World'') = py_hash ?e ?t"
    by (simp add: sample_env_sel ustr_def)
  from sh [THEN conjunct2, THEN conjunct1] hh k
  have k2: "translation_key ?e (ustr ''World'') ?s ?g = Inr (ustr ''trans:en:es:5'')" by simp
  have wr: "cache_translation ?e hello_w5 ?t ?s ?g hello_result 3600 = Inr (hello_w6 hello_result)"
    by (rule hello_write) (simp_all add: sample_env_sel)
  have gen: "model_generate ?e (tick hello_w4 - 1) (Handle 1 2) ?t = Some (ustr ''hola'')"
    by (simp add: sample_env_sel)
  have d1: "disk_ok ?e 1" by (simp add: sample_env_sel)
  note st = hello_stages [OF sample_env_sel(1,2,3,4) gen sample_env_sel(8) d1]
  have n1: "new_calls hello_w5 (hello_w6 hello_result)
              = [Disk_set (ustr ''trans:en:es:5'') hello_result 3600]"
    by (simp add: new_calls_def tick_def hello_w6_def hello_w5_def hello_w4_def hello_w3_def
        hello_w1_def log_call_def empty_world_def)
  have n2: "new_calls hello_w1 hello_w3 = [Disk_get (ustr ''trans:en:es:5'')]"
    by (simp add: new_calls_def tick_def hello_w3_def hello_w1_def log_call_def empty_world_def)
  from sh [THEN conjunct2, THEN conjunct2, THEN conjunct1, rule_format, OF k wr]
       sh [THEN conjunct2, THEN conjunct2, THEN conjunct2, rule_format, OF k st(3)]
       k hh k2 n1 n2
  show ?thesis by simp
qed

theorem translation_key_shape_counterexample:
  "translation_key sample_env (ustr ''Hello'') (ustr ''en'') (ustr ''es'')
     = Inr (ustr ''trans:en:es:5'')
   \<and> length (ustr ''trans:en:es:Hello'') \<le> 200
   \<and> ustr ''trans:en:es:5'' \<noteq> ustr ''trans:en:es:Hello''"
  by (simp add: key_hello_en_es sample_env_sel) (simp add: ustr_def)

section \<open>Chunking in the local backend\<close>

lemma strip_Nil_iff: "strip s = [] \<longleftrightarrow> list_all isspace s"
proof
  assume "list_all isspace s"
  then show "strip s = []"
    by (auto simp: strip_def lstrip_def rstrip_def list_all_iff dest: set_dropWhileD)
next
  assume e: "strip s = []"
  show "list_all isspace s"
  proof (rule ccontr)
    assume "\<not> list_all isspace s"
    then have ne: "dropWhile isspace s \<noteq> []" by (simp add: list_all_iff)
    then have "\<not> isspace (hd (dropWhile isspace s))" by (rule hd_dropWhile)
    moreover from ne have "hd (dropWhile isspace s) \<in> set (dropWhile isspace s)" by simp
    ultimately have "dropWhile isspace (rev (dropWhile isspace s)) \<noteq> []" by auto
    with e show False by (simp add: strip_def lstrip_def rstrip_def)
  qed
qed

lemma chunks_unfold:
  assumes "0 < n"
  shows "chunks n xs = (if xs = [] then [] else take n xs # chunks n (drop n xs))"
proof (cases "xs = []")
  case True
  with assms show ?thesis by (simp add: chunks_def py_range_def)
next
  case False
  then have pos: "0 < length xs" by simp
  have m: "(length xs + n - 1) div n = Suc ((length xs - n + n - 1) div n)"
  proof (cases "length xs \<le> n")
    case True
    from False have "Suc 0 \<le> length xs" by (cases xs) simp_all
    with True assms have "n \<le> length xs + n - 1" and "length xs + n - 1 < n + n"
      by linarith+
    then have "(length xs + n - 1) div n = 1" by (intro div_nat_eqI) simp_all
    with True assms show ?thesis by simp
  next
    case False
    define a where "a = length xs - n + n - 1"
    from False assms have "length xs + n - 1 = a + n" by (simp add: a_def)
    then have "(length xs + n - 1) div n = (a + n) div n" by simp
    also have "\<dots> = Suc (a div n)" using assms by simp
    finally show ?thesis by (simp add: a_def)
  qed
  have "chunks n xs = map (\<lambda>k. take n (drop (k * n) xs)) [0 ..< Suc ((length xs - n + n - 1) div n)]"
    using m by (simp add: chunks_def py_range_def comp_def)
  also have "\<dots> = take n xs # map (\<lambda>k. take n (drop (Suc k * n) xs)) [0 ..< (length xs - n + n - 1) div n]"
    by (simp only: upt_conv_Cons [OF zero_less_Suc] map_Suc_upt [symmetric] list.map map_map comp_def)
       simp
  also have "map (\<lambda>k. take n (drop (Suc k * n) xs)) [0 ..< (length xs - n + n - 1) div n]
               = chunks n (drop n xs)"
    by (simp add: chunks_def py_range_def comp_def add.commute)
  finally show ?thesis using False by simp
qed

lemma concat_chunks:
  assumes "0 < n"
  shows "concat (chunks n xs) = xs"
proof (induction "length xs" arbitrary: xs rule: less_induct)
  case less
  show ?case
  proof (cases "xs = []")
    case True
    then show ?thesis by (simp add: chunks_unfold [OF assms])
  next
    case False
    with assms have "length (drop n xs) < length xs" by simp
    then have "concat (chunks n (drop n xs)) = drop n xs" by (rule less)
    with False show ?thesis by (subst chunks_unfold [OF assms]) simp
  qed
qed

lemma length_chunks: "length (chunks n xs) = (length xs + n - 1) div n"
  by (simp add: chunks_def py_range_def)

lemma nth_chunks:
  "i < length (chunks n xs) \<Longrightarrow> chunks n xs ! i = take n (drop (i * n) xs)"
  by (simp add: chunks_def py_range_def)

lemma chunk_full:
  assumes "0 < n" and "Suc i < length (chunks n xs)"
  shows "length (chunks n xs ! i) = n"
proof -
  from assms(2) have "Suc (Suc i) \<le> (length xs + n - 1) div n" by (simp add: length_chunks)
  with assms(1) have "Suc (Suc i) * n \<le> length xs + n - 1"
    by (simp add: less_eq_div_iff_mult_less_eq)
  then have "Suc i * n \<le> length xs" using assms(1) by simp
  moreover from assms(2) have "i < length (chunks n xs)" by simp
  ultimately have "chunks n xs ! i = take n (drop (i * n) xs)" and "n \<le> length xs - i * n"
    by (simp_all add: nth_chunks)
  then show ?thesis by simp
qed

lemma chunk_last:
  assumes "0 < n" and "xs \<noteq> []"
  shows "0 < length (last (chunks n xs)) \<and> length (last (chunks n xs)) \<le> n"
proof -
  let ?m = "length (chunks n xs)"
  from assms have mpos: "0 < ?m"
    by (subst chunks_unfold [OF assms(1)]) simp
  then have ne: "chunks n xs \<noteq> []" by auto
  have "?m - 1 < ?m" using mpos by simp
  then have nth: "chunks n xs ! (?m - 1) = take n (drop ((?m - 1) * n) xs)" by (rule nth_chunks)
  have "Suc (?m - 1) \<le> (length xs + n - 1) div n" using mpos by (simp add: length_chunks)
  with assms(1) have "Suc (?m - 1) * n \<le> length xs + n - 1"
    by (simp only: less_eq_div_iff_mult_less_eq)
  then have "(?m - 1) * n < length xs" using assms by (cases xs) auto
  with nth assms(1) have "0 < length (chunks n xs ! (?m - 1)) \<and> length (chunks n xs ! (?m - 1)) \<le> n"
    by simp
  with ne show ?thesis by (simp add: last_conv_nth)
qed

lemma translate_chunks_all:
  assumes "length outs = length cs"
    and "\<forall>i < length cs. model_generate e (tick w + i) h (cs ! i) = Some (outs ! i)"
  shows "translate_chunks e w h cs = (Some outs, w\<lparr>trace := trace w @ map (Model_generate h) cs\<rparr>)"
  using assms
proof (induction cs arbitrary: w outs)
  case Nil
  then show ?case by simp
next
  case (Cons c cs)
  then obtain out outs' where outs: "outs = out # outs'" by (cases outs) auto
  let ?w1 = "log_call (Model_generate h c) w"
  from Cons.prems(2) have g0: "model_generate e (tick w) h c = Some out"
    using outs by (auto dest: spec [of _ 0])
  have tk: "tick ?w1 = Suc (tick w)" by (simp add: tick_def log_call_def)
  have "\<forall>i < length cs. model_generate e (tick ?w1 + i) h (cs ! i) = Some (outs' ! i)"
  proof (intro allI impI)
    fix i assume "i < length cs"
    then have "Suc i < length (c # cs)" by simp
    with Cons.prems(2) have "model_generate e (tick w + Suc i) h ((c # cs) ! Suc i) = Some (outs ! Suc i)"
      by blast
    then show "model_generate e (tick ?w1 + i) h (cs ! i) = Some (outs' ! i)"
      using outs tk by simp
  qed
  moreover from Cons.prems(1) outs have "length outs' = length cs" by simp
  ultimately have "translate_chunks e ?w1 h cs
      = (Some outs', ?w1\<lparr>trace := trace ?w1 @ map (Model_generate h) cs\<rparr>)"
    by (rule Cons.IH [rotated])
  with g0 outs show ?case
    by (simp add: run_model_def log_call_def)
qed

text \<open>
  Claim C6, as amended. For every text of more than 400 characters that is not made of
  white space only, when the model of the pair is available and the model runs
  successfully on each chunk: \<open>translate_with_ai\<close> cuts the text into consecutive pieces
  of 400 characters (the last one shorter or equal, never empty), runs the model once on
  each piece, in order, and returns the outputs joined by single spaces. The claim as
  stated covers every text of more than 400 characters; the example after the theorem is
  a text of 401 spaces, for which the function returns \<open>(None, None)\<close> at once, without
  loading or running the model.
\<close>

theorem translate_with_ai_chunked:
  assumes len: "length text > 400"
    and ns: "\<not> list_all isspace text"
    and load: "load_ai_model e w (ustr ''Helsinki-NLP/opus-mt-'' @ src @ ustr ''-'' @ tgt) = (Some h, w1)"
    and outs: "length outs = length (chunks 400 text)"
    and gen: "\<forall>i < length (chunks 400 text).
                model_generate e (tick w1 + i) h (chunks 400 text ! i) = Some (outs ! i)"
  shows "translate_with_ai e w text src tgt =
           (Some (py_join (ustr '' '') outs, ai_method_name),
            w1\<lparr>trace := trace w1 @ map (Model_generate h) (chunks 400 text)\<rparr>)
       \<and> concat (chunks 400 text) = text
       \<and> (\<forall>i. Suc i < length (chunks 400 text) \<longrightarrow> length (chunks 400 text ! i) = 400)
       \<and> 0 < length (last (chunks 400 text)) \<and> length (last (chunks 400 text)) \<le> 400"
proof -
  from ns have st: "strip text \<noteq> []" by (simp add: strip_Nil_iff)
  from len have ne: "text \<noteq> []" by auto
  have tc: "translate_chunks e w1 h (chunks 400 text)
              = (Some outs, w1\<lparr>trace := trace w1 @ map (Model_generate h) (chunks 400 text)\<rparr>)"
    using outs gen by (rule translate_chunks_all)
  have run: "translate_with_ai e w text src tgt =
           (Some (py_join (ustr '' '') outs, ai_method_name),
            w1\<lparr>trace := trace w1 @ map (Model_generate h) (chunks 400 text)\<rparr>)"
    using st len load tc by (simp add: translate_with_ai_def Let_def)
  have cc: "concat (chunks 400 text) = text" by (rule concat_chunks) simp
  have full: "\<forall>i. Suc i < length (chunks 400 text) \<longrightarrow> length (chunks 400 text ! i) = 400"
    using chunk_full [of 400 _ "text"] by simp
  have lst: "0 < length (last (chunks 400 text)) \<and> length (last (chunks 400 text)) \<le> 400"
    using chunk_last [of 400 "text"] ne by simp
  from run cc full lst show ?thesis by blast
qed

lemma chunk_env_sel:
  "tokenizer_from_pretrained chunk_env = (\<lambda>n name. Some 1)"
  "model_from_pretrained chunk_env = (\<lambda>n name. Some 2)"
  "model_generate chunk_env =
     (\<lambda>n h s. if length s = 400 then Some (ustr ''uno'') else Some (ustr ''dos''))"
  by (simp_all add: chunk_env_def sample_env_def)

lemma chunks_long_text: "chunks 400 long_text = [replicate 400 97, [98]]"
proof -
  have "chunks 400 long_text = take 400 long_text # chunks 400 (drop 400 long_text)"
    by (subst chunks_unfold) (simp_all add: long_text_def)
  also have "take 400 long_text = replicate 400 97" by (simp add: long_text_def)
  also have "drop 400 long_text = [98]" by (simp add: long_text_def)
  also have "chunks 400 [98] = [[98]]"
    by (subst chunks_unfold, simp, simp, subst chunks_unfold, simp, simp)
  finally show ?thesis .
qed

theorem translate_with_ai_chunked_witness:
  "length long_text > 400 \<and> \<not> list_all isspace long_text
   \<and> chunks 400 long_text = [replicate 400 97, [98]]
   \<and> fst (translate_with_ai chunk_env empty_world long_text (ustr ''en'') (ustr ''es''))
       = Some (ustr ''uno dos'', ai_method_name)
   \<and> backend_calls (snd (translate_with_ai chunk_env empty_world long_text
                            (ustr ''en'') (ustr ''es'')))
       = [Model_generate (Handle 1 2) (replicate 400 97), Model_generate (Handle 1 2) [98]]"
proof -
  let ?name = "ustr ''Helsinki-NLP/opus-mt-'' @ ustr ''en'' @ ustr ''-'' @ ustr ''es''"
  define w1 where "w1 = (log_call (Model_from_pretrained ?name)
                           (log_call (Tokenizer_from_pretrained ?name) empty_world))
                          \<lparr>model_cache := (model_cache empty_world)(?name \<mapsto> Handle 1 2)\<rparr>"
  have len: "length long_text > 400" by (simp add: long_text_def)
  have ns: "\<not> list_all isspace long_text" by (simp add: long_text_def isspace_def)
  have load: "load_ai_model chunk_env empty_world ?name = (Some (Handle 1 2), w1)"
    by (simp add: load_ai_model_def chunk_env_sel empty_world_def Let_def w1_def log_call_def)
  have outs: "length [ustr ''uno'', ustr ''dos''] = length (chunks 400 long_text)"
    by (simp add: chunks_long_text)
  have gen: "\<forall>i < length (chunks 400 long_text).
               model_generate chunk_env (tick w1 + i) (Handle 1 2) (chunks 400 long_text ! i)
                 = Some ([ustr ''uno'', ustr ''dos''] ! i)"
    by (auto simp: chunks_long_text chunk_env_sel less_Suc_eq)
  have bc: "backend_calls (w1\<lparr>trace := trace w1 @ map (Model_generate (Handle 1 2))
                                                      (chunks 400 long_text)\<rparr>)
       = [Model_generate (Handle 1 2) (replicate 400 97), Model_generate (Handle 1 2) [98]]"
    by (simp add: chunks_long_text backend_calls_def w1_def log_call_def empty_world_def)
  have j: "py_join (ustr '' '') [ustr ''uno'', ustr ''dos''] = ustr ''uno dos''"
    by (simp add: ustr_def)
  from translate_with_ai_chunked [OF len ns load outs gen, THEN conjunct1] len ns bc j
    chunks_long_text
  show ?thesis by simp
qed

theorem translate_with_ai_chunked_counterexample:
  "length (replicate 401 (32::nat)) > 400
   \<and> translate_with_ai sample_env empty_world (replicate 401 32) (ustr ''en'') (ustr ''es'')
       = (None, empty_world)"
  by (simp add: translate_with_ai_def strip_def lstrip_def rstrip_def isspace_def)

end
